theory Spec2Isabelle
  imports Complex_Main
begin

section \<open>Task-Alarm: data model\<close>

text \<open>
  The types of \<^verbatim>\<open>types/alarm.types.ts\<close>. A JavaScript string is a \<open>string\<close>
  (code units below 256); a \<^verbatim>\<open>Date\<close> is a number of milliseconds, an \<open>int\<close>.
  \<^verbatim>\<open>Date\<close> works in the zone of the device. The time calculation is given twice.
  The functions whose names end in \<open>In\<close> take the zone as a parameter: there a
  \<^verbatim>\<open>Date\<close> is an instant (milliseconds since the epoch, UTC) and the zone says which
  wall-clock time an instant shows. The functions without that ending are the same
  functions on the wall clock of a zone whose offset never changes: there a
  \<^verbatim>\<open>Date\<close> is the milliseconds of local time since local 1970-01-01T00:00 and every
  local day has \<open>86400000\<close> ms. In a zone of constant offset the two agree up to
  the offset (lemma \<open>fixed_getNextAlarmTime\<close>); the services and the context use the
  wall-clock form. An ISO timestamp field (\<^verbatim>\<open>createdAt\<close>, \<^verbatim>\<open>updatedAt\<close>) is kept as
  the instant it encodes.
  A thrown \<^verbatim>\<open>Error(msg)\<close> is the value \<open>Error msg\<close> on the left of a sum; the
  \<^verbatim>\<open>RangeError\<close> that \<^verbatim>\<open>toISOString\<close> throws on an invalid date is \<open>RangeError msg\<close>.
\<close>

datatype WeekDay = Mon | Tue | Wed | Thu | Fri | Sat | Sun

datatype Error = Error string | RangeError string

type_synonym Date = int

text \<open>
  \<^verbatim>\<open>AlarmInput = Omit<Alarm, 'id' | 'createdAt' | 'updatedAt' | 'notificationId'>\<close>;
  \<open>Alarm\<close> adds the four omitted fields. \<open>id'\<close> is the field \<^verbatim>\<open>id\<close>.
\<close>

record AlarmInput =
  label :: string
  description :: "string option"
  time :: string
  repeats :: "WeekDay list"
  isEnabled :: bool
  soundUri :: string
  snoozeEnabled :: bool
  snoozeDuration :: int

record Alarm = AlarmInput +
  id' :: string
  notificationId :: "string option"
  createdAt :: Date
  updatedAt :: Date

text \<open>
  \<^verbatim>\<open>Partial<Alarm>\<close>, the argument of \<^verbatim>\<open>updateAlarm\<close>: \<open>None\<close> is a key the
  object does not have. \<^verbatim>\<open>description\<close> and \<^verbatim>\<open>notificationId\<close> are optional in
  \<^verbatim>\<open>Alarm\<close>, so an update can carry the key with the value \<^verbatim>\<open>undefined\<close>:
  \<open>Some None\<close>. The keys \<^verbatim>\<open>id\<close>, \<^verbatim>\<open>createdAt\<close> and \<^verbatim>\<open>updatedAt\<close> are
  overwritten by \<^verbatim>\<open>updateAlarm\<close> whatever the update holds, and are left out.
\<close>

record AlarmUpdates =
  upd_label :: "string option"
  upd_description :: "string option option"
  upd_time :: "string option"
  upd_repeats :: "WeekDay list option"
  upd_isEnabled :: "bool option"
  upd_soundUri :: "string option"
  upd_snoozeEnabled :: "bool option"
  upd_snoozeDuration :: "int option"
  upd_notificationId :: "string option option"

text \<open>
  \<^verbatim>\<open>NotificationData\<close>. \<open>scheduledAt\<close> is read by the notification handler with
  \<^verbatim>\<open>typeof ... === 'string'\<close> and then through \<^verbatim>\<open>new Date(...)\<close>: \<open>Absent\<close> is a
  missing key, a value that is no string, or the empty string (all of which the handler
  passes over); \<open>Unparsable\<close> is a string that is no date (its time is \<^verbatim>\<open>NaN\<close>);
  \<open>Iso d\<close> is a string that encodes the instant \<open>d\<close>.
\<close>

datatype ScheduledAt = Absent | Unparsable | Iso Date

record NotificationData =
  alarmId :: string
  isSnoozed :: bool
  label' :: string
  scheduledAt :: ScheduledAt

text \<open>
  \<^verbatim>\<open>NotificationConfig\<close> and the platform's notification request. The display strings
  (title, body, subtitle) are left out: no branch depends on them, and the functions
  that compute them (\<^verbatim>\<open>formatAlarmTime\<close>, \<^verbatim>\<open>getAlarmDescription\<close>) catch their own
  exceptions. \<open>trigger\<close> is the \<^verbatim>\<open>date\<close> of the request's trigger, when it has one.
\<close>

record NotificationConfig =
  data :: NotificationData
  sound :: string
  triggerDate :: Date

record NotificationContent =
  content_data :: NotificationData
  content_sound :: string

record NotificationRequest =
  identifier' :: string
  content :: NotificationContent
  trigger :: "Date option"

text \<open>What \<^verbatim>\<open>handleNotification\<close> returns.\<close>

record NotificationBehavior =
  shouldShowAlert :: bool
  shouldPlaySound :: bool
  shouldSetBadge :: bool
  shouldShowBanner :: bool
  shouldShowList :: bool

text \<open>\<^verbatim>\<open>constants/alarm.constants.ts\<close>: 0 = Sunday, 1 = Monday, ...\<close>

fun WEEKDAY_TO_NUMBER :: "WeekDay \<Rightarrow> int" where
  "WEEKDAY_TO_NUMBER Sun = 0"
| "WEEKDAY_TO_NUMBER Mon = 1"
| "WEEKDAY_TO_NUMBER Tue = 2"
| "WEEKDAY_TO_NUMBER Wed = 3"
| "WEEKDAY_TO_NUMBER Thu = 4"
| "WEEKDAY_TO_NUMBER Fri = 5"
| "WEEKDAY_TO_NUMBER Sat = 6"

text \<open>A number that is no key of the table reads \<^verbatim>\<open>undefined\<close>: \<open>None\<close>.\<close>

definition NUMBER_TO_WEEKDAY :: "int \<Rightarrow> WeekDay option" where
  "NUMBER_TO_WEEKDAY n =
     (if n = 0 then Some Sun else if n = 1 then Some Mon else if n = 2 then Some Tue
      else if n = 3 then Some Wed else if n = 4 then Some Thu else if n = 5 then Some Fri
      else if n = 6 then Some Sat else None)"

section \<open>The Date operations the source uses, on the wall clock\<close>

definition MS_PER_DAY :: int where
  "MS_PER_DAY = 86400000"

text \<open>The index of the local calendar day an instant falls on (day 0 is 1970-01-01).\<close>

definition localDay :: "Date \<Rightarrow> int" where
  "localDay t = t div MS_PER_DAY"

text \<open>\<^verbatim>\<open>getDay()\<close>: 1970-01-01 was a Thursday (4).\<close>

definition getDay :: "Date \<Rightarrow> int" where
  "getDay t = (localDay t + 4) mod 7"

text \<open>\<^verbatim>\<open>d.setHours(hours, minutes, 0, 0)\<close>: same local day, the given time of day.\<close>

definition setHours :: "Date \<Rightarrow> int \<Rightarrow> int \<Rightarrow> Date" where
  "setHours t hours minutes = localDay t * MS_PER_DAY + hours * 3600000 + minutes * 60000"

text \<open>\<^verbatim>\<open>d.setDate(d.getDate() + n)\<close>: the same time of day \<open>n\<close> calendar days on.\<close>

definition addDays :: "Date \<Rightarrow> int \<Rightarrow> Date" where
  "addDays t n = t + n * MS_PER_DAY"

text \<open>
  The millisecond count of a civil date and time, used to write the scenarios: the day
  index of a date of the proleptic Gregorian calendar, then the time. Read on the wall
  clock it is \<^verbatim>\<open>new Date(y, m - 1, d, hh, mm)\<close>; read as an instant it is
  \<^verbatim>\<open>Date.UTC(y, m - 1, d, hh, mm)\<close>.
\<close>

definition civilDay :: "int \<Rightarrow> int \<Rightarrow> int \<Rightarrow> int" where
  "civilDay y m d =
     (let y1 = (if m \<le> 2 then y - 1 else y);
          era = y1 div 400;
          yoe = y1 - era * 400;
          doy = (153 * (if m > 2 then m - 3 else m + 9) + 2) div 5 + d - 1;
          doe = yoe * 365 + yoe div 4 - yoe div 100 + doy
      in era * 146097 + doe - 719468)"

definition mkDate :: "int \<Rightarrow> int \<Rightarrow> int \<Rightarrow> int \<Rightarrow> int \<Rightarrow> Date" where
  "mkDate y m d hh mm = civilDay y m d * MS_PER_DAY + hh * 3600000 + mm * 60000"

section \<open>utils/timeCalculations.ts\<close>

subsection \<open>String built-ins\<close>

text \<open>\<^verbatim>\<open>s.split(':')\<close>: never empty; the empty string splits to one empty piece.\<close>

fun split_on :: "char \<Rightarrow> string \<Rightarrow> string list" where
  "split_on d [] = [[]]"
| "split_on d (c # cs) =
     (if c = d then [] # split_on d cs
      else (case split_on d cs of
              [] \<Rightarrow> [[c]]
            | w # ws \<Rightarrow> (c # w) # ws))"

text \<open>White space that \<^verbatim>\<open>parseInt\<close> skips: TAB, LF, VT, FF, CR, SP, NBSP.\<close>

definition isWhiteSpace :: "char \<Rightarrow> bool" where
  "isWhiteSpace c = ((of_char c :: nat) \<in> {9, 10, 11, 12, 13, 32, 160})"

definition isDigit :: "char \<Rightarrow> bool" where
  "isDigit c = (48 \<le> (of_char c :: nat) \<and> (of_char c :: nat) \<le> 57)"

definition digitVal :: "char \<Rightarrow> int" where
  "digitVal c = int (of_char c) - 48"

text \<open>
  \<^verbatim>\<open>parseInt(s, 10)\<close>: skip leading white space, read one optional sign, then the
  longest run of decimal digits; \<^verbatim>\<open>NaN\<close> (\<open>None\<close>) when that run is empty. Whatever
  follows the digits is ignored.
\<close>

definition parseInt :: "string \<Rightarrow> int option" where
  "parseInt s =
     (let s1 = dropWhile isWhiteSpace s;
          sgn = (case s1 of [] \<Rightarrow> 1 | c # _ \<Rightarrow> if c = CHR ''-'' then - 1 else (1::int));
          s2 = (case s1 of [] \<Rightarrow> []
                | c # r \<Rightarrow> if c = CHR ''-'' \<or> c = CHR ''+'' then r else s1);
          ds = takeWhile isDigit s2
      in if ds = [] then None
         else Some (sgn * foldl (\<lambda>acc c. 10 * acc + digitVal c) 0 ds))"

text \<open>\<^verbatim>\<open>parseInt(undefined, 10)\<close> is \<^verbatim>\<open>NaN\<close>.\<close>

definition parseIntOpt :: "string option \<Rightarrow> int option" where
  "parseIntOpt s = (case s of None \<Rightarrow> None | Some x \<Rightarrow> parseInt x)"

subsection \<open>parseTimeString, isValidTimeString\<close>

text \<open>The destructuring \<^verbatim>\<open>[hoursStr, minutesStr] = time.split(':')\<close>.\<close>

definition hoursStr :: "string \<Rightarrow> string option" where
  "hoursStr t = (case split_on CHR '':'' t of [] \<Rightarrow> None | h # _ \<Rightarrow> Some h)"

definition minutesStr :: "string \<Rightarrow> string option" where
  "minutesStr t = (case split_on CHR '':'' t of h # m # _ \<Rightarrow> Some m | _ \<Rightarrow> None)"

definition parseTimeString :: "string \<Rightarrow> Error + (int \<times> int)" where
  "parseTimeString t =
     (case (parseIntOpt (hoursStr t), parseIntOpt (minutesStr t)) of
        (Some hours, Some minutes) \<Rightarrow>
          if hours < 0 \<or> hours > 23 \<or> minutes < 0 \<or> minutes > 59
          then Inl (Error ''Invalid time format. Expected HH:mm'')
          else Inr (hours, minutes)
      | _ \<Rightarrow> Inl (Error ''Invalid time format. Expected HH:mm''))"

definition isValidTimeString :: "string \<Rightarrow> bool" where
  "isValidTimeString t = (case parseTimeString t of Inl _ \<Rightarrow> False | Inr _ \<Rightarrow> True)"

text \<open>The shape the error message names: two digits, a colon, two digits.\<close>

definition isHHmm :: "string \<Rightarrow> bool" where
  "isHHmm t =
     (case t of
        [a, b, c, d, e] \<Rightarrow> isDigit a \<and> isDigit b \<and> c = CHR '':'' \<and> isDigit d \<and> isDigit e
      | _ \<Rightarrow> False)"

subsection \<open>getNextWeekdayOccurrence, getNextAlarmTime\<close>

text \<open>
  Both functions read the clock with \<^verbatim>\<open>new Date()\<close>; the reading is the parameter
  \<open>now\<close>, and one call of \<open>getNextAlarmTime\<close> sees one reading throughout.
\<close>

definition nextDate :: "Date \<Rightarrow> int \<Rightarrow> int \<Rightarrow> int \<Rightarrow> Date" where
  "nextDate now daysUntil hours minutes = setHours (addDays now daysUntil) hours minutes"

definition getNextWeekdayOccurrence :: "WeekDay \<Rightarrow> string \<Rightarrow> Date \<Rightarrow> Error + Date" where
  "getNextWeekdayOccurrence day t now =
     (case parseTimeString t of
        Inl e \<Rightarrow> Inl e
      | Inr (hours, minutes) \<Rightarrow>
          (let targetDayNumber = WEEKDAY_TO_NUMBER day;
               currentDayNumber = getDay now;
               daysUntil = targetDayNumber - currentDayNumber
           in if daysUntil = 0 then
                (let alarmTime = setHours now hours minutes
                 in if alarmTime > now then Inr alarmTime
                    else Inr (nextDate now 7 hours minutes))
              else if daysUntil < 0 then Inr (nextDate now (daysUntil + 7) hours minutes)
              else Inr (nextDate now daysUntil hours minutes)))"

text \<open>
  The loop over \<^verbatim>\<open>repeats\<close>: \<open>acc\<close> is \<^verbatim>\<open>nextOccurrence\<close> (\<open>None\<close> is
  \<^verbatim>\<open>null\<close>); an exception of \<open>getNextWeekdayOccurrence\<close> leaves the loop.
\<close>

fun nextOccurrenceLoop :: "WeekDay list \<Rightarrow> string \<Rightarrow> Date \<Rightarrow> Date option \<Rightarrow> Error + Date option" where
  "nextOccurrenceLoop [] t now acc = Inr acc"
| "nextOccurrenceLoop (day # days) t now acc =
     (case getNextWeekdayOccurrence day t now of
        Inl e \<Rightarrow> Inl e
      | Inr occurrence \<Rightarrow>
          nextOccurrenceLoop days t now
            (case acc of
               None \<Rightarrow> Some occurrence
             | Some nextOccurrence \<Rightarrow>
                 if occurrence < nextOccurrence then Some occurrence else Some nextOccurrence))"

definition repeatsToday :: "WeekDay list \<Rightarrow> Date \<Rightarrow> bool" where
  "repeatsToday rs now =
     (case NUMBER_TO_WEEKDAY (getDay now) of
        None \<Rightarrow> False
      | Some currentDayName \<Rightarrow> currentDayName \<in> set rs)"

definition getNextAlarmTime :: "Alarm \<Rightarrow> Date \<Rightarrow> Error + Date" where
  "getNextAlarmTime alarm now =
     (case parseTimeString (time alarm) of
        Inl e \<Rightarrow> Inl e
      | Inr (hours, minutes) \<Rightarrow>
          if repeats alarm = [] then
            (let alarmTime = setHours now hours minutes
             in if alarmTime > now then Inr alarmTime else Inr (addDays alarmTime 1))
          else if repeatsToday (repeats alarm) now \<and> setHours now hours minutes > now
          then Inr (setHours now hours minutes)
          else
            (case nextOccurrenceLoop (repeats alarm) (time alarm) now None of
               Inl e \<Rightarrow> Inl e
             | Inr None \<Rightarrow> Inl (Error ''Failed to calculate next alarm time'')
             | Inr (Some nextOccurrence) \<Rightarrow> Inr nextOccurrence))"

subsection \<open>The time calculation in the zone of the device\<close>

text \<open>
  A zone is the offset (local minus UTC, in ms) in force at first, and the later changes
  of offset in ascending order, each the instant from which a new offset is in force.
  \<open>LocalTime\<close> and \<open>UTC\<close> are the abstract operations of the language standard:
  the wall-clock time of an instant is the instant plus the offset in force at it; a
  wall-clock time that a change of offset skips or repeats is read with the offset
  before the change.
\<close>

record Zone =
  baseOffset :: int
  transitions :: "(int \<times> int) list"

fun offsetFrom :: "int \<Rightarrow> (int \<times> int) list \<Rightarrow> int \<Rightarrow> int" where
  "offsetFrom off [] t = off"
| "offsetFrom off ((u, off') # rest) t = (if t < u then off else offsetFrom off' rest t)"

definition offsetAt :: "Zone \<Rightarrow> int \<Rightarrow> int" where
  "offsetAt z t = offsetFrom (baseOffset z) (transitions z) t"

definition LocalTime :: "Zone \<Rightarrow> int \<Rightarrow> int" where
  "LocalTime z t = t + offsetAt z t"

fun utcFrom :: "int \<Rightarrow> (int \<times> int) list \<Rightarrow> int \<Rightarrow> int" where
  "utcFrom off [] local = local - off"
| "utcFrom off ((u, off') # rest) local =
     (if local - off < u \<or> local - off' < u then local - off else utcFrom off' rest local)"

definition UTC :: "Zone \<Rightarrow> int \<Rightarrow> int" where
  "UTC z local = utcFrom (baseOffset z) (transitions z) local"

definition getDayIn :: "Zone \<Rightarrow> int \<Rightarrow> int" where
  "getDayIn z t = (LocalTime z t div MS_PER_DAY + 4) mod 7"

text \<open>The wall-clock time \<open>hours:minutes\<close> on the local day of the instant \<open>t\<close>.\<close>

definition todayAt :: "Zone \<Rightarrow> int \<Rightarrow> int \<Rightarrow> int \<Rightarrow> int" where
  "todayAt z t hours minutes =
     LocalTime z t div MS_PER_DAY * MS_PER_DAY + hours * 3600000 + minutes * 60000"

text \<open>
  \<^verbatim>\<open>d.setHours(hours, minutes, 0, 0)\<close> and \<^verbatim>\<open>d.setDate(d.getDate() + n)\<close>: the
  new wall-clock time, taken back to an instant.
\<close>

definition setHoursIn :: "Zone \<Rightarrow> int \<Rightarrow> int \<Rightarrow> int \<Rightarrow> int" where
  "setHoursIn z t hours minutes = UTC z (todayAt z t hours minutes)"

definition addDaysIn :: "Zone \<Rightarrow> int \<Rightarrow> int \<Rightarrow> int" where
  "addDaysIn z t n = UTC z (LocalTime z t + n * MS_PER_DAY)"

definition nextDateIn :: "Zone \<Rightarrow> int \<Rightarrow> int \<Rightarrow> int \<Rightarrow> int \<Rightarrow> int" where
  "nextDateIn z now daysUntil hours minutes =
     setHoursIn z (addDaysIn z now daysUntil) hours minutes"

definition getNextWeekdayOccurrenceIn ::
  "Zone \<Rightarrow> WeekDay \<Rightarrow> string \<Rightarrow> int \<Rightarrow> Error + int" where
  "getNextWeekdayOccurrenceIn z day t now =
     (case parseTimeString t of
        Inl e \<Rightarrow> Inl e
      | Inr (hours, minutes) \<Rightarrow>
          (let targetDayNumber = WEEKDAY_TO_NUMBER day;
               currentDayNumber = getDayIn z now;
               daysUntil = targetDayNumber - currentDayNumber
           in if daysUntil = 0 then
                (let alarmTime = setHoursIn z now hours minutes
                 in if alarmTime > now then Inr alarmTime
                    else Inr (nextDateIn z now 7 hours minutes))
              else if daysUntil < 0 then Inr (nextDateIn z now (daysUntil + 7) hours minutes)
              else Inr (nextDateIn z now daysUntil hours minutes)))"

fun nextOccurrenceLoopIn ::
  "Zone \<Rightarrow> WeekDay list \<Rightarrow> string \<Rightarrow> int \<Rightarrow> int option \<Rightarrow> Error + int option" where
  "nextOccurrenceLoopIn z [] t now acc = Inr acc"
| "nextOccurrenceLoopIn z (day # days) t now acc =
     (case getNextWeekdayOccurrenceIn z day t now of
        Inl e \<Rightarrow> Inl e
      | Inr occurrence \<Rightarrow>
          nextOccurrenceLoopIn z days t now
            (case acc of
               None \<Rightarrow> Some occurrence
             | Some nextOccurrence \<Rightarrow>
                 if occurrence < nextOccurrence then Some occurrence else Some nextOccurrence))"

definition repeatsTodayIn :: "Zone \<Rightarrow> WeekDay list \<Rightarrow> int \<Rightarrow> bool" where
  "repeatsTodayIn z rs now =
     (case NUMBER_TO_WEEKDAY (getDayIn z now) of
        None \<Rightarrow> False
      | Some currentDayName \<Rightarrow> currentDayName \<in> set rs)"

definition getNextAlarmTimeIn :: "Zone \<Rightarrow> Alarm \<Rightarrow> int \<Rightarrow> Error + int" where
  "getNextAlarmTimeIn z alarm now =
     (case parseTimeString (time alarm) of
        Inl e \<Rightarrow> Inl e
      | Inr (hours, minutes) \<Rightarrow>
          if repeats alarm = [] then
            (let alarmTime = setHoursIn z now hours minutes
             in if alarmTime > now then Inr alarmTime else Inr (addDaysIn z alarmTime 1))
          else if repeatsTodayIn z (repeats alarm) now \<and> setHoursIn z now hours minutes > now
          then Inr (setHoursIn z now hours minutes)
          else
            (case nextOccurrenceLoopIn z (repeats alarm) (time alarm) now None of
               Inl e \<Rightarrow> Inl e
             | Inr None \<Rightarrow> Inl (Error ''Failed to calculate next alarm time'')
             | Inr (Some nextOccurrence) \<Rightarrow> Inr nextOccurrence))"

section \<open>The platform: expo-notifications and AsyncStorage\<close>

text \<open>
  The two libraries are outside the repository. The notifier keeps the requests that are
  scheduled and not yet cancelled. What the platform answers is not the program's to
  decide, so it is scripted: each call of \<^verbatim>\<open>scheduleNotificationAsync\<close> takes the next
  entry of \<open>scheduleOutcomes\<close>, \<open>Some i\<close> to register the request under the identifier
  \<open>i\<close>, \<open>None\<close> to reject; each call of \<^verbatim>\<open>cancelScheduledNotificationAsync\<close> takes
  the next entry of \<open>cancelOutcomes\<close>, \<open>False\<close> to reject. A script that has run out
  rejects a schedule call (there is no identifier to hand out) and lets a cancel call
  succeed. Cancelling removes every request of that identifier and is a no-op when
  there is none.
\<close>

record Notifier =
  scheduled :: "NotificationRequest list"
  scheduleOutcomes :: "string option list"
  cancelOutcomes :: "bool list"

definition scheduleNotificationAsync ::
  "NotificationContent \<Rightarrow> Date \<Rightarrow> Notifier \<Rightarrow> string option \<times> Notifier" where
  "scheduleNotificationAsync c d n =
     (case scheduleOutcomes n of
        [] \<Rightarrow> (None, n)
      | None # rest \<Rightarrow> (None, n\<lparr>scheduleOutcomes := rest\<rparr>)
      | Some i # rest \<Rightarrow>
          (Some i,
           n\<lparr>scheduled := scheduled n @ [\<lparr>identifier' = i, content = c, trigger = Some d\<rparr>],
             scheduleOutcomes := rest\<rparr>))"

definition removeRequest :: "string \<Rightarrow> NotificationRequest list \<Rightarrow> NotificationRequest list" where
  "removeRequest i rs = filter (\<lambda>r. identifier' r \<noteq> i) rs"

definition cancelScheduledNotificationAsync :: "string \<Rightarrow> Notifier \<Rightarrow> bool \<times> Notifier" where
  "cancelScheduledNotificationAsync i n =
     (case cancelOutcomes n of
        [] \<Rightarrow> (True, n\<lparr>scheduled := removeRequest i (scheduled n)\<rparr>)
      | ok # rest \<Rightarrow>
          if ok then (True, n\<lparr>scheduled := removeRequest i (scheduled n), cancelOutcomes := rest\<rparr>)
          else (False, n\<lparr>cancelOutcomes := rest\<rparr>))"

text \<open>
  AsyncStorage holds the item \<^verbatim>\<open>@alarms\<close>: \<open>None\<close> is \<^verbatim>\<open>null\<close> (never written), and
  a written item is kept as the list its JSON encodes. Each \<^verbatim>\<open>getItem\<close> or
  \<^verbatim>\<open>setItem\<close> takes the next entry of \<open>storageOutcomes\<close>, \<open>False\<close> to reject; a
  script that has run out lets the call succeed.
\<close>

record Storage =
  item :: "Alarm list option"
  storageOutcomes :: "bool list"

definition storageCall :: "Storage \<Rightarrow> bool \<times> Storage" where
  "storageCall st =
     (case storageOutcomes st of
        [] \<Rightarrow> (True, st)
      | ok # rest \<Rightarrow> (ok, st\<lparr>storageOutcomes := rest\<rparr>))"

section \<open>services/NotificationService.ts\<close>

text \<open>A string (or \<^verbatim>\<open>undefined\<close>) in a condition: true when present and not empty.\<close>

definition truthy :: "string option \<Rightarrow> bool" where
  "truthy s = (case s of None \<Rightarrow> False | Some x \<Rightarrow> x \<noteq> [])"

definition scheduleNotification ::
  "NotificationConfig \<Rightarrow> Notifier \<Rightarrow> (Error + string) \<times> Notifier" where
  "scheduleNotification config n =
     (let notificationContent =
            \<lparr>content_data = data config,
             content_sound =
               (if sound config = ''default'' \<or> sound config = [] then ''default''
                else sound config)\<rparr>
      in case scheduleNotificationAsync notificationContent (triggerDate config) n of
           (None, n') \<Rightarrow> (Inl (Error ''Failed to schedule notification''), n')
         | (Some nid, n') \<Rightarrow> (Inr nid, n'))"

definition cancelNotification :: "string \<Rightarrow> Notifier \<Rightarrow> (Error + unit) \<times> Notifier" where
  "cancelNotification i n =
     (case cancelScheduledNotificationAsync i n of
        (False, n') \<Rightarrow> (Inl (Error ''Failed to cancel notification''), n')
      | (True, n') \<Rightarrow> (Inr (), n'))"

text \<open>
  The handler that \<^verbatim>\<open>initialize\<close> installs. \<open>scheduledIso\<close> is
  \<^verbatim>\<open>dataScheduledAt || (trigger && 'date' in trigger ? ... : undefined)\<close>, as the time
  it stands for (\<open>Some None\<close>: a string whose time is \<^verbatim>\<open>NaN\<close>). For such a string
  \<^verbatim>\<open>scheduledTime.toISOString()\<close>, called to fill \<^verbatim>\<open>timingInfo\<close> before any
  comparison, throws, and the handler has no \<^verbatim>\<open>catch\<close>. The difference in seconds
  is the exact quotient.
\<close>

definition TOLERANCE_SECONDS :: rat where
  "TOLERANCE_SECONDS = 30"

definition scheduledIso :: "NotificationRequest \<Rightarrow> Date option option" where
  "scheduledIso request =
     (case scheduledAt (content_data (content request)) of
        Iso d \<Rightarrow> Some (Some d)
      | Unparsable \<Rightarrow> Some None
      | Absent \<Rightarrow> (case trigger request of None \<Rightarrow> None | Some d \<Rightarrow> Some (Some d)))"

definition shouldShow :: "NotificationRequest \<Rightarrow> Date \<Rightarrow> Error + bool" where
  "shouldShow request now =
     (case scheduledIso request of
        None \<Rightarrow> Inr True
      | Some None \<Rightarrow> Inl (RangeError ''Invalid time value'')
      | Some (Some scheduledTime) \<Rightarrow>
          (let timeDiffMs = scheduledTime - now;
               timeDiffSeconds = (of_int timeDiffMs :: rat) / 1000
           in if timeDiffSeconds > TOLERANCE_SECONDS then Inr False else Inr True))"

definition handleNotification ::
  "NotificationRequest \<Rightarrow> Date \<Rightarrow> Error + NotificationBehavior" where
  "handleNotification request now =
     (case shouldShow request now of
        Inl e \<Rightarrow> Inl e
      | Inr s \<Rightarrow>
          Inr \<lparr>shouldShowAlert = s, shouldPlaySound = s, shouldSetBadge = s,
               shouldShowBanner = s, shouldShowList = s\<rparr>)"

section \<open>services/SchedulerService.ts\<close>

text \<open>
  Every function takes the clock reading \<open>now\<close> and the notifier, and returns what it
  returns or throws together with the notifier it leaves behind. A local
  \<^verbatim>\<open>notificationId\<close> is written \<open>nid\<close>.
\<close>

definition calculateNextTrigger :: "Alarm \<Rightarrow> Date \<Rightarrow> Error + Date" where
  "calculateNextTrigger alarm now =
     (case getNextAlarmTime alarm now of
        Inl e \<Rightarrow> Inl (Error ''Failed to calculate next alarm trigger time'')
      | Inr d \<Rightarrow> Inr d)"

definition scheduleAlarm :: "Alarm \<Rightarrow> Date \<Rightarrow> Notifier \<Rightarrow> (Error + string) \<times> Notifier" where
  "scheduleAlarm alarm now n =
     (case calculateNextTrigger alarm now of
        Inl e \<Rightarrow> (Inl (Error ''Failed to schedule alarm''), n)
      | Inr nextTriggerTime \<Rightarrow>
          (let notificationData =
                 \<lparr>alarmId = id' alarm, isSnoozed = False, label' = label alarm,
                  scheduledAt = Absent\<rparr>
           in case scheduleNotification
                     \<lparr>data = notificationData, sound = soundUri alarm,
                      triggerDate = nextTriggerTime\<rparr> n of
                (Inl e, n') \<Rightarrow> (Inl (Error ''Failed to schedule alarm''), n')
              | (Inr nid, n') \<Rightarrow> (Inr nid, n')))"

definition cancelAlarm :: "string \<Rightarrow> Notifier \<Rightarrow> (Error + unit) \<times> Notifier" where
  "cancelAlarm nid n =
     (if nid = [] then (Inr (), n)
      else case cancelNotification nid n of
             (Inl e, n') \<Rightarrow> (Inl (Error ''Failed to cancel alarm''), n')
           | (Inr u, n') \<Rightarrow> (Inr (), n'))"

text \<open>\<^verbatim>\<open>if (x.notificationId) { await cancelAlarm(x.notificationId); }\<close>\<close>

definition cancelIfPresent :: "string option \<Rightarrow> Notifier \<Rightarrow> (Error + unit) \<times> Notifier" where
  "cancelIfPresent x n =
     (case x of
        None \<Rightarrow> (Inr (), n)
      | Some nid \<Rightarrow> if nid = [] then (Inr (), n) else cancelAlarm nid n)"

definition rescheduleAlarm :: "Alarm \<Rightarrow> Date \<Rightarrow> Notifier \<Rightarrow> (Error + string) \<times> Notifier" where
  "rescheduleAlarm alarm now n =
     (case cancelIfPresent (notificationId alarm) n of
        (Inl e, n1) \<Rightarrow> (Inl (Error ''Failed to reschedule alarm''), n1)
      | (Inr u, n1) \<Rightarrow>
          (case scheduleAlarm alarm now n1 of
             (Inl e, n2) \<Rightarrow> (Inl (Error ''Failed to reschedule alarm''), n2)
           | (Inr newNotificationId, n2) \<Rightarrow> (Inr newNotificationId, n2)))"

text \<open>
  A \<^verbatim>\<open>Date\<close> holds a time of at most \<open>8.64e15\<close> ms either side of the epoch; beyond
  that \<^verbatim>\<open>new Date(...)\<close> is invalid and \<^verbatim>\<open>toISOString\<close> throws. The snooze
  duration is data of the alarm, so \<open>scheduleSnooze\<close> can leave the range: its log line
  calls \<^verbatim>\<open>snoozeTime.toISOString()\<close> inside the \<^verbatim>\<open>try\<close>. The clock reading itself is
  taken to lie far enough inside the range for the few days the time calculation adds.
\<close>

definition validTime :: "int \<Rightarrow> bool" where
  "validTime t = (- 8640000000000000 \<le> t \<and> t \<le> 8640000000000000)"

definition scheduleSnooze ::
  "Alarm \<Rightarrow> int \<Rightarrow> Date \<Rightarrow> Notifier \<Rightarrow> (Error + string) \<times> Notifier" where
  "scheduleSnooze originalAlarm snoozeDurationMinutes now n =
     (let snoozeTime = now + snoozeDurationMinutes * 60 * 1000;
          notificationData =
            \<lparr>alarmId = id' originalAlarm, isSnoozed = True, label' = label originalAlarm,
             scheduledAt = Absent\<rparr>
      in if \<not> validTime snoozeTime then (Inl (Error ''Failed to schedule snooze''), n)
         else case scheduleNotification
                     \<lparr>data = notificationData, sound = soundUri originalAlarm,
                      triggerDate = snoozeTime\<rparr> n of
                (Inl e, n') \<Rightarrow> (Inl (Error ''Failed to schedule snooze''), n')
              | (Inr nid, n') \<Rightarrow> (Inr nid, n'))"

text \<open>\<open>Inr None\<close> is the returned \<^verbatim>\<open>null\<close>.\<close>

definition rescheduleRepeatingAlarm ::
  "Alarm \<Rightarrow> Date \<Rightarrow> Notifier \<Rightarrow> (Error + string option) \<times> Notifier" where
  "rescheduleRepeatingAlarm alarm now n =
     (if repeats alarm = [] then (Inr None, n)
      else if \<not> isEnabled alarm then (Inr None, n)
      else case scheduleAlarm alarm now n of
             (Inl e, n') \<Rightarrow> (Inl (Error ''Failed to reschedule repeating alarm''), n')
           | (Inr nid, n') \<Rightarrow> (Inr (Some nid), n'))"

text \<open>
  The loop of \<^verbatim>\<open>rescheduleAllAlarms\<close> over the enabled alarms: \<open>results\<close> is the
  \<^verbatim>\<open>Map\<close>; the inner \<^verbatim>\<open>catch\<close> logs and goes on.
\<close>

fun rescheduleLoop ::
  "Alarm list \<Rightarrow> Date \<Rightarrow> (string \<rightharpoonup> string) \<Rightarrow> Notifier \<Rightarrow> (string \<rightharpoonup> string) \<times> Notifier" where
  "rescheduleLoop [] now results n = (results, n)"
| "rescheduleLoop (alarm # rest) now results n =
     (case scheduleAlarm alarm now n of
        (Inl e, n') \<Rightarrow> rescheduleLoop rest now results n'
      | (Inr nid, n') \<Rightarrow>
          rescheduleLoop rest now (results(id' alarm \<mapsto> nid)) n')"

text \<open>
  Outside the inner \<^verbatim>\<open>try\<close> the body only filters the array and builds the map, so
  the outer \<^verbatim>\<open>catch\<close> has nothing to catch; the result type keeps the error side.
\<close>

definition rescheduleAllAlarms ::
  "Alarm list \<Rightarrow> Date \<Rightarrow> Notifier \<Rightarrow> (Error + (string \<rightharpoonup> string)) \<times> Notifier" where
  "rescheduleAllAlarms alarms now n =
     (let enabledAlarms = filter isEnabled alarms
      in case rescheduleLoop enabledAlarms now Map.empty n of
           (results, n') \<Rightarrow> (Inr results, n'))"

section \<open>services/StorageService.ts\<close>

definition getAlarms :: "Storage \<Rightarrow> (Error + Alarm list) \<times> Storage" where
  "getAlarms st =
     (case storageCall st of
        (False, st') \<Rightarrow> (Inl (Error ''Failed to retrieve alarms from storage''), st')
      | (True, st') \<Rightarrow> (Inr (case item st' of None \<Rightarrow> [] | Some stored \<Rightarrow> stored), st'))"

definition saveAlarms :: "Alarm list \<Rightarrow> Storage \<Rightarrow> (Error + unit) \<times> Storage" where
  "saveAlarms as st =
     (case storageCall st of
        (False, st') \<Rightarrow> (Inl (Error ''Failed to save alarms to storage''), st')
      | (True, st') \<Rightarrow> (Inr (), st'\<lparr>item := Some as\<rparr>))"

definition storage_addAlarm :: "Alarm \<Rightarrow> Storage \<Rightarrow> (Error + unit) \<times> Storage" where
  "storage_addAlarm alarm st =
     (case getAlarms st of
        (Inl e, st1) \<Rightarrow> (Inl (Error ''Failed to add alarm to storage''), st1)
      | (Inr as, st1) \<Rightarrow>
          (case saveAlarms (as @ [alarm]) st1 of
             (Inl e, st2) \<Rightarrow> (Inl (Error ''Failed to add alarm to storage''), st2)
           | (Inr u, st2) \<Rightarrow> (Inr (), st2)))"

text \<open>\<^verbatim>\<open>alarms.findIndex(a => a.id === i)\<close>; \<open>None\<close> is \<open>-1\<close>.\<close>

fun findIndex :: "string \<Rightarrow> Alarm list \<Rightarrow> nat option" where
  "findIndex i [] = None"
| "findIndex i (a # as) =
     (if id' a = i then Some 0
      else (case findIndex i as of None \<Rightarrow> None | Some k \<Rightarrow> Some (Suc k)))"

text \<open>The clock reading \<open>now\<close> is the new \<^verbatim>\<open>updatedAt\<close>.\<close>

definition storage_updateAlarm :: "Alarm \<Rightarrow> Date \<Rightarrow> Storage \<Rightarrow> (Error + unit) \<times> Storage" where
  "storage_updateAlarm updatedAlarm now st =
     (case getAlarms st of
        (Inl e, st1) \<Rightarrow> (Inl (Error ''Failed to update alarm in storage''), st1)
      | (Inr as, st1) \<Rightarrow>
          (case findIndex (id' updatedAlarm) as of
             None \<Rightarrow> (Inl (Error ''Failed to update alarm in storage''), st1)
           | Some index \<Rightarrow>
               (case saveAlarms (as[index := updatedAlarm\<lparr>updatedAt := now\<rparr>]) st1 of
                  (Inl e, st2) \<Rightarrow> (Inl (Error ''Failed to update alarm in storage''), st2)
                | (Inr u, st2) \<Rightarrow> (Inr (), st2))))"

section \<open>context/AlarmContext.tsx\<close>

text \<open>
  The provider's React state, and the world an operation runs in: that state, the
  storage and the notifier. An operation returns \<open>Inr ()\<close> when its promise resolves
  and \<open>Inl e\<close> when it rejects with \<open>e\<close>, together with the world it leaves behind. An
  operation runs to its end before the next one starts.
\<close>

record ContextState =
  alarms :: "Alarm list"
  loading :: bool
  error :: "string option"

record World =
  ctx :: ContextState
  storage :: Storage
  notifier :: Notifier

definition setError :: "string option \<Rightarrow> World \<Rightarrow> World" where
  "setError e w = w\<lparr>ctx := (ctx w)\<lparr>error := e\<rparr>\<rparr>"

definition setAlarms :: "(Alarm list \<Rightarrow> Alarm list) \<Rightarrow> World \<Rightarrow> World" where
  "setAlarms f w = w\<lparr>ctx := (ctx w)\<lparr>alarms := f (alarms (ctx w))\<rparr>\<rparr>"

text \<open>\<^verbatim>\<open>alarms.find(a => a.id === i)\<close>\<close>

definition getAlarmById :: "World \<Rightarrow> string \<Rightarrow> Alarm option" where
  "getAlarmById w i = find (\<lambda>a. id' a = i) (alarms (ctx w))"

text \<open>
  \<open>addAlarm\<close>. The generated id (\<^verbatim>\<open>alarm-<time>-<random>\<close>) is the parameter \<open>i\<close>;
  both timestamps are the clock reading \<open>now\<close>.
\<close>

definition newAlarmOf :: "AlarmInput \<Rightarrow> string \<Rightarrow> Date \<Rightarrow> Alarm" where
  "newAlarmOf alarmInput i now =
     \<lparr>label = label alarmInput, description = description alarmInput,
      time = time alarmInput, repeats = repeats alarmInput,
      isEnabled = isEnabled alarmInput, soundUri = soundUri alarmInput,
      snoozeEnabled = snoozeEnabled alarmInput, snoozeDuration = snoozeDuration alarmInput,
      id' = i, notificationId = None, createdAt = now, updatedAt = now\<rparr>"

definition addAlarm :: "AlarmInput \<Rightarrow> string \<Rightarrow> Date \<Rightarrow> World \<Rightarrow> (Error + unit) \<times> World" where
  "addAlarm alarmInput i now w0 =
     (let w = setError None w0;
          newAlarm = newAlarmOf alarmInput i now
      in case (if isEnabled newAlarm
               then (case scheduleAlarm newAlarm now (notifier w) of
                       (Inl e, n') \<Rightarrow>
                         (Inl (Error ''Failed to schedule alarm notification''),
                          w\<lparr>notifier := n'\<rparr>)
                     | (Inr nid, n') \<Rightarrow>
                         (Inr (newAlarm\<lparr>notificationId := Some nid\<rparr>), w\<lparr>notifier := n'\<rparr>))
               else (Inr newAlarm, w)) of
           (Inl err, w1) \<Rightarrow> (Inl err, setError (Some ''Failed to add alarm'') w1)
         | (Inr newAlarm', w1) \<Rightarrow>
             (case storage_addAlarm newAlarm' (storage w1) of
                (Inl err, st') \<Rightarrow>
                  (Inl err, setError (Some ''Failed to add alarm'') (w1\<lparr>storage := st'\<rparr>))
              | (Inr u, st') \<Rightarrow>
                  (Inr (), setAlarms (\<lambda>prev. prev @ [newAlarm']) (w1\<lparr>storage := st'\<rparr>))))"

text \<open>
  \<open>updateAlarm\<close>. \<open>mergeUpdates\<close> is the object spread
  \<^verbatim>\<open>{...existingAlarm, ...updates, id, createdAt: existingAlarm.createdAt, updatedAt}\<close>.
\<close>

definition mergeUpdates :: "Alarm \<Rightarrow> AlarmUpdates \<Rightarrow> string \<Rightarrow> Date \<Rightarrow> Alarm" where
  "mergeUpdates existingAlarm updates i now =
     \<lparr>label = (case upd_label updates of None \<Rightarrow> label existingAlarm | Some v \<Rightarrow> v),
      description =
        (case upd_description updates of None \<Rightarrow> description existingAlarm | Some v \<Rightarrow> v),
      time = (case upd_time updates of None \<Rightarrow> time existingAlarm | Some v \<Rightarrow> v),
      repeats = (case upd_repeats updates of None \<Rightarrow> repeats existingAlarm | Some v \<Rightarrow> v),
      isEnabled =
        (case upd_isEnabled updates of None \<Rightarrow> isEnabled existingAlarm | Some v \<Rightarrow> v),
      soundUri = (case upd_soundUri updates of None \<Rightarrow> soundUri existingAlarm | Some v \<Rightarrow> v),
      snoozeEnabled =
        (case upd_snoozeEnabled updates of None \<Rightarrow> snoozeEnabled existingAlarm | Some v \<Rightarrow> v),
      snoozeDuration =
        (case upd_snoozeDuration updates of None \<Rightarrow> snoozeDuration existingAlarm | Some v \<Rightarrow> v),
      id' = i,
      notificationId =
        (case upd_notificationId updates of
           None \<Rightarrow> notificationId existingAlarm | Some v \<Rightarrow> v),
      createdAt = createdAt existingAlarm,
      updatedAt = now\<rparr>"

definition needsReschedule :: "AlarmUpdates \<Rightarrow> bool" where
  "needsReschedule updates =
     (upd_time updates \<noteq> None \<or> upd_repeats updates \<noteq> None \<or>
      upd_isEnabled updates \<noteq> None \<or> upd_soundUri updates \<noteq> None)"

text \<open>
  The block under \<^verbatim>\<open>if (needsReschedule)\<close>: cancel the old notification if there is
  one, then schedule the new one if the updated alarm is enabled. It returns the updated
  alarm with the \<^verbatim>\<open>notificationId\<close> it ends with, or the exception that leaves it.
\<close>

definition rescheduleBlock ::
  "Alarm \<Rightarrow> Alarm \<Rightarrow> Date \<Rightarrow> Notifier \<Rightarrow> (Error + Alarm) \<times> Notifier" where
  "rescheduleBlock existingAlarm updatedAlarm now n =
     (case cancelIfPresent (notificationId existingAlarm) n of
        (Inl e, n1) \<Rightarrow> (Inl e, n1)
      | (Inr u, n1) \<Rightarrow>
          if isEnabled updatedAlarm
          then (case scheduleAlarm updatedAlarm now n1 of
                  (Inl e, n2) \<Rightarrow> (Inl e, n2)
                | (Inr nid, n2) \<Rightarrow> (Inr (updatedAlarm\<lparr>notificationId := Some nid\<rparr>), n2))
          else (Inr (updatedAlarm\<lparr>notificationId := None\<rparr>), n1))"

text \<open>
  \<^verbatim>\<open>updateAlarm\<close> is a \<^verbatim>\<open>useCallback\<close> over \<^verbatim>\<open>[alarms]\<close>: the function object of
  a render reads \<^verbatim>\<open>existingAlarm\<close> from the \<^verbatim>\<open>alarms\<close> array that render captured,
  while \<^verbatim>\<open>setAlarms(prev => ...)\<close> works on the state of the moment.
  \<open>updateAlarmOf captured\<close> is the function object of a render whose array is
  \<open>captured\<close>.
\<close>

definition updateAlarmOf ::
  "Alarm list \<Rightarrow> string \<Rightarrow> AlarmUpdates \<Rightarrow> Date \<Rightarrow> World \<Rightarrow> (Error + unit) \<times> World" where
  "updateAlarmOf captured i updates now w0 =
     (let w = setError None w0
      in case find (\<lambda>a. id' a = i) captured of
           None \<Rightarrow> (Inl (Error ''Alarm not found''), setError (Some ''Failed to update alarm'') w)
         | Some existingAlarm \<Rightarrow>
             (case (if needsReschedule updates
                    then rescheduleBlock existingAlarm
                           (mergeUpdates existingAlarm updates i now) now (notifier w)
                    else (Inr (mergeUpdates existingAlarm updates i now), notifier w)) of
                (Inl err, n') \<Rightarrow>
                  (Inl err, setError (Some ''Failed to update alarm'') (w\<lparr>notifier := n'\<rparr>))
              | (Inr updatedAlarm, n') \<Rightarrow>
                  (case storage_updateAlarm updatedAlarm now (storage w) of
                     (Inl err, st') \<Rightarrow>
                       (Inl err,
                        setError (Some ''Failed to update alarm'')
                          (w\<lparr>notifier := n', storage := st'\<rparr>))
                   | (Inr u, st') \<Rightarrow>
                       (Inr (),
                        setAlarms (map (\<lambda>a. if id' a = i then updatedAlarm else a))
                          (w\<lparr>notifier := n', storage := st'\<rparr>)))))"

text \<open>
  A call through the function object of the latest render: the captured array is the
  array of the state. This is the call a component makes once the provider has
  re-rendered after the last state change. The other operations (\<open>addAlarm\<close>,
  \<open>toggleAlarm\<close>, \<open>getAlarmById\<close>, the handlers of \<^verbatim>\<open>App.tsx\<close>) are modelled for
  such a call only.
\<close>

definition updateAlarm :: "string \<Rightarrow> AlarmUpdates \<Rightarrow> Date \<Rightarrow> World \<Rightarrow> (Error + unit) \<times> World" where
  "updateAlarm i updates now w = updateAlarmOf (alarms (ctx w)) i updates now w"

text \<open>An update that sets nothing, to write \<^verbatim>\<open>{ isEnabled: ... }\<close> and the like from.\<close>

definition noUpdates :: AlarmUpdates where
  "noUpdates =
     \<lparr>upd_label = None, upd_description = None, upd_time = None, upd_repeats = None,
      upd_isEnabled = None, upd_soundUri = None, upd_snoozeEnabled = None,
      upd_snoozeDuration = None, upd_notificationId = None\<rparr>"

definition toggleAlarm :: "string \<Rightarrow> Date \<Rightarrow> World \<Rightarrow> (Error + unit) \<times> World" where
  "toggleAlarm i now w0 =
     (let w = setError None w0
      in case getAlarmById w i of
           None \<Rightarrow> (Inl (Error ''Alarm not found''), setError (Some ''Failed to toggle alarm'') w)
         | Some alarm \<Rightarrow>
             (let newEnabledState = (\<not> isEnabled alarm)
              in case updateAlarm i (noUpdates\<lparr>upd_isEnabled := Some newEnabledState\<rparr>) now w of
                   (Inl err, w') \<Rightarrow> (Inl err, setError (Some ''Failed to toggle alarm'') w')
                 | (Inr u, w') \<Rightarrow> (Inr (), w')))"

section \<open>App.tsx: the snooze and dismiss handlers\<close>

text \<open>
  Both handlers catch every exception and log it, so each returns only the world it
  leaves behind. \<^verbatim>\<open>cancelSchedule\<close> is \<open>cancelAlarm\<close> (the hook rethrows).
\<close>

definition onSnooze :: "string \<Rightarrow> Date \<Rightarrow> World \<Rightarrow> World" where
  "onSnooze i now w =
     (case getAlarmById w i of
        None \<Rightarrow> w
      | Some alarm \<Rightarrow>
          if \<not> snoozeEnabled alarm then w
          else (case cancelIfPresent (notificationId alarm) (notifier w) of
                  (Inl e, n1) \<Rightarrow> w\<lparr>notifier := n1\<rparr>
                | (Inr u, n1) \<Rightarrow>
                    (case scheduleSnooze alarm (snoozeDuration alarm) now n1 of
                       (Inl e, n2) \<Rightarrow> w\<lparr>notifier := n2\<rparr>
                     | (Inr nid, n2) \<Rightarrow>
                         snd (updateAlarm i (noUpdates\<lparr>upd_notificationId := Some (Some nid)\<rparr>)
                                now (w\<lparr>notifier := n2\<rparr>)))))"

definition onDismiss :: "string \<Rightarrow> Date \<Rightarrow> World \<Rightarrow> World" where
  "onDismiss i now w =
     (case getAlarmById w i of
        None \<Rightarrow> w
      | Some alarm \<Rightarrow>
          (case cancelIfPresent (notificationId alarm) (notifier w) of
             (Inl e, n1) \<Rightarrow> w\<lparr>notifier := n1\<rparr>
           | (Inr u, n1) \<Rightarrow>
               if repeats alarm \<noteq> [] then
                 (case rescheduleRepeatingAlarm alarm now n1 of
                    (Inl e, n2) \<Rightarrow> w\<lparr>notifier := n2\<rparr>
                  | (Inr nid, n2) \<Rightarrow>
                      if truthy nid
                      then snd (updateAlarm i (noUpdates\<lparr>upd_notificationId := Some nid\<rparr>)
                                  now (w\<lparr>notifier := n2\<rparr>))
                      else w\<lparr>notifier := n2\<rparr>)
               else snd (updateAlarm i
                           (noUpdates\<lparr>upd_isEnabled := Some False, upd_notificationId := Some None\<rparr>)
                           now (w\<lparr>notifier := n1\<rparr>))))"

text \<open>
  A notification arriving while the app is in the foreground runs two callbacks: the
  handler of \<^verbatim>\<open>NotificationService.initialize\<close>, which decides how it is shown, and
  the listener of \<^verbatim>\<open>useNotificationListener\<close>, which logs it. Neither has the context
  in scope or writes to it: the context state passes through.
\<close>

definition notificationReceived ::
  "NotificationRequest \<Rightarrow> Date \<Rightarrow> ContextState
     \<Rightarrow> (Error + NotificationBehavior) \<times> ContextState" where
  "notificationReceived request now c = (handleNotification request now, c)"

section \<open>Definitions for stating the properties\<close>

text \<open>The behaviour that shows nothing.\<close>

definition allHidden :: NotificationBehavior where
  "allHidden =
     \<lparr>shouldShowAlert = False, shouldPlaySound = False, shouldSetBadge = False,
      shouldShowBanner = False, shouldShowList = False\<rparr>"

text \<open>
  The trace of a run of \<open>scheduleAlarm\<close> over a list of alarms, each call starting from
  the notifier the one before it left: every alarm with what its call returned or threw;
  the notifier after the last call; and the map that holds, for each id, the
  notification id of the last call for that id that returned.
\<close>

fun scheduleAttempts :: "Alarm list \<Rightarrow> Date \<Rightarrow> Notifier \<Rightarrow> (Alarm \<times> (Error + string)) list" where
  "scheduleAttempts [] now n = []"
| "scheduleAttempts (a # as) now n =
     (a, fst (scheduleAlarm a now n)) # scheduleAttempts as now (snd (scheduleAlarm a now n))"

fun notifierAfter :: "Alarm list \<Rightarrow> Date \<Rightarrow> Notifier \<Rightarrow> Notifier" where
  "notifierAfter [] now n = n"
| "notifierAfter (a # as) now n = notifierAfter as now (snd (scheduleAlarm a now n))"

fun lastSuccess ::
  "(Alarm \<times> (Error + string)) list \<Rightarrow> (string \<rightharpoonup> string) \<Rightarrow> (string \<rightharpoonup> string)" where
  "lastSuccess [] m = m"
| "lastSuccess ((a, Inl e) # rest) m = lastSuccess rest m"
| "lastSuccess ((a, Inr t) # rest) m = lastSuccess rest (m(id' a \<mapsto> t))"

text \<open>
  The scheduled requests once the notification \<open>x\<close> of an alarm is cancelled (nothing is
  cancelled for \<^verbatim>\<open>undefined\<close> or the empty string), and the request that
  \<open>scheduleAlarm\<close> registers for an alarm under the identifier \<open>nid\<close> for the instant \<open>d\<close>.
\<close>

definition withoutToken :: "string option \<Rightarrow> NotificationRequest list \<Rightarrow> NotificationRequest list" where
  "withoutToken x rs =
     (case x of None \<Rightarrow> rs | Some t \<Rightarrow> if t = [] then rs else removeRequest t rs)"

definition requestFor :: "Alarm \<Rightarrow> string \<Rightarrow> Date \<Rightarrow> NotificationRequest" where
  "requestFor a nid d =
     \<lparr>identifier' = nid,
      content =
        \<lparr>content_data =
           \<lparr>alarmId = id' a, isSnoozed = False, label' = label a, scheduledAt = Absent\<rparr>,
         content_sound =
           (if soundUri a = ''default'' \<or> soundUri a = [] then ''default'' else soundUri a)\<rparr>,
      trigger = Some d\<rparr>"

text \<open>
  The invariant of the data model: an alarm has a \<^verbatim>\<open>notificationId\<close> exactly when it
  is enabled; a context state satisfies it when every alarm in it does.
\<close>

definition armedIffEnabled :: "Alarm \<Rightarrow> bool" where
  "armedIffEnabled a = ((notificationId a \<noteq> None) = isEnabled a)"

definition invariant :: "ContextState \<Rightarrow> bool" where
  "invariant c = list_all armedIffEnabled (alarms c)"

text \<open>
  The live registrations of an alarm are the scheduled requests that carry its id. An
  alarm is at rest when the identifiers of its live registrations are exactly its
  \<^verbatim>\<open>notificationId\<close> (none when it has none), and that id is not the empty string.
\<close>

definition liveFor :: "Notifier \<Rightarrow> string \<Rightarrow> NotificationRequest list" where
  "liveFor n i = filter (\<lambda>r. alarmId (content_data (content r)) = i) (scheduled n)"

definition tokenOf :: "World \<Rightarrow> string \<Rightarrow> string option" where
  "tokenOf w i = (case getAlarmById w i of None \<Rightarrow> None | Some a \<Rightarrow> notificationId a)"

definition atRest :: "World \<Rightarrow> string \<Rightarrow> bool" where
  "atRest w i =
     (map identifier' (liveFor (notifier w) i) =
        (case tokenOf w i of None \<Rightarrow> [] | Some t \<Rightarrow> [t])
      \<and> tokenOf w i \<noteq> Some [])"

text \<open>
  A zone whose offset never changes. And the condition under which a zone is steady
  around \<open>now\<close> for a time of day: the offset in force at \<open>now\<close> is the one under which
  today's and tomorrow's wall-clock times \<open>hours:minutes\<close> are read, and the one in force
  at the instants they are read as. It fails when the offset changes between \<open>now\<close> and
  one of those times.
\<close>

definition fixedZone :: "int \<Rightarrow> Zone" where
  "fixedZone off = \<lparr>baseOffset = off, transitions = []\<rparr>"

definition steadyOffset :: "Zone \<Rightarrow> int \<Rightarrow> int \<Rightarrow> int \<Rightarrow> bool" where
  "steadyOffset z now hours minutes =
     (let off = offsetAt z now; c = todayAt z now hours minutes
      in UTC z c = c - off \<and> offsetAt z (c - off) = off \<and>
         UTC z (c + MS_PER_DAY) = c + MS_PER_DAY - off \<and>
         offsetAt z (c + MS_PER_DAY - off) = off)"

text \<open>
  A zone that is quiet around \<open>now\<close>: no change of offset within seven days of \<open>now\<close>,
  and no offset of more than a day.
\<close>

definition quietAround :: "Zone \<Rightarrow> int \<Rightarrow> bool" where
  "quietAround z now =
     (\<bar>baseOffset z\<bar> \<le> MS_PER_DAY \<and>
      list_all (\<lambda>(u, off). (u \<le> now - 7 * MS_PER_DAY \<or> now + 7 * MS_PER_DAY \<le> u) \<and>
                  \<bar>off\<bar> \<le> MS_PER_DAY) (transitions z))"

text \<open>The alarms the storage holds (\<^verbatim>\<open>getAlarms\<close> on a storage that answers).\<close>

definition storedAlarms :: "Storage \<Rightarrow> Alarm list" where
  "storedAlarms st = (case item st of None \<Rightarrow> [] | Some as \<Rightarrow> as)"

section \<open>Sample data\<close>

text \<open>An alarm record for the scenarios: only \<open>time\<close> and \<open>repeats\<close> vary.\<close>

definition sampleAlarm :: "string \<Rightarrow> WeekDay list \<Rightarrow> Alarm" where
  "sampleAlarm t rs =
     \<lparr>label = ''Morning'', description = None, time = t, repeats = rs,
      isEnabled = True, soundUri = ''chimes'', snoozeEnabled = True, snoozeDuration = 10,
      id' = ''alarm-1'', notificationId = None, createdAt = 0, updatedAt = 0\<rparr>"

text \<open>
  A world with one enabled one-time alarm for 07:30, scheduled under \<open>n1\<close> for
  2025-10-24, seen on 2025-10-23 at 08:00; the argument is the script of the platform's
  answers to the schedule calls to come. And a world whose only alarm is disabled.
\<close>

definition now0 :: Date where
  "now0 = mkDate 2025 10 23 8 0"

definition armedAlarm :: Alarm where
  "armedAlarm = (sampleAlarm ''07:30'' [])\<lparr>notificationId := Some ''n1''\<rparr>"

definition sampleRequest :: NotificationRequest where
  "sampleRequest =
     \<lparr>identifier' = ''n1'',
      content =
        \<lparr>content_data =
           \<lparr>alarmId = ''alarm-1'', isSnoozed = False, label' = ''Morning'',
            scheduledAt = Absent\<rparr>,
         content_sound = ''chimes''\<rparr>,
      trigger = Some (mkDate 2025 10 24 7 30)\<rparr>"

definition sampleWorld :: "string option list \<Rightarrow> World" where
  "sampleWorld script =
     \<lparr>ctx = \<lparr>alarms = [armedAlarm], loading = False, error = None\<rparr>,
      storage = \<lparr>item = Some [armedAlarm], storageOutcomes = []\<rparr>,
      notifier = \<lparr>scheduled = [sampleRequest], scheduleOutcomes = script, cancelOutcomes = []\<rparr>\<rparr>"

definition disabledWorld :: World where
  "disabledWorld =
     \<lparr>ctx = \<lparr>alarms = [(sampleAlarm ''07:30'' [])\<lparr>isEnabled := False\<rparr>], loading = False,
             error = None\<rparr>,
      storage = \<lparr>item = Some [(sampleAlarm ''07:30'' [])\<lparr>isEnabled := False\<rparr>],
                 storageOutcomes = []\<rparr>,
      notifier = \<lparr>scheduled = [], scheduleOutcomes = [Some ''n9''], cancelOutcomes = []\<rparr>\<rparr>"

text \<open>
  New York in 2025: five hours behind UTC, four from 9 March 07:00 UTC (02:00 local
  becomes 03:00), five again from 2 November 06:00 UTC (02:00 local becomes 01:00).
\<close>

definition newYork :: Zone where
  "newYork =
     \<lparr>baseOffset = - 5 * 3600000,
      transitions =
        [(mkDate 2025 3 9 7 0, - 4 * 3600000), (mkDate 2025 11 2 6 0, - 5 * 3600000)]\<rparr>"

text \<open>
  Two edits in a row through the function object of one render: both calls of
  \<open>updateAlarmOf\<close> have the array which that render captured, the array of
  \<open>twoAnswers\<close>.
\<close>

definition twoAnswers :: World where
  "twoAnswers = sampleWorld [Some ''n2'', Some ''n3'']"

definition afterFirstEdit :: World where
  "afterFirstEdit =
     snd (updateAlarmOf (alarms (ctx twoAnswers)) ''alarm-1''
            (noUpdates\<lparr>upd_time := Some ''08:15''\<rparr>) now0 twoAnswers)"

definition afterSecondEdit :: World where
  "afterSecondEdit =
     snd (updateAlarmOf (alarms (ctx twoAnswers)) ''alarm-1''
            (noUpdates\<lparr>upd_repeats := Some [Mon]\<rparr>) now0 afterFirstEdit)"

definition sampleInput :: AlarmInput where
  "sampleInput =
     \<lparr>label = ''Gym'', description = None, time = ''06:00'', repeats = [],
      isEnabled = True, soundUri = ''default'', snoozeEnabled = True, snoozeDuration = 10\<rparr>"



section \<open>Properties of the time calculation\<close>

lemma parseTimeString_range:
  "parseTimeString t = Inr (h, m) \<Longrightarrow> 0 \<le> h \<and> h \<le> 23 \<and> 0 \<le> m \<and> m \<le> 59"
  by (auto simp: parseTimeString_def split: option.splits if_splits)








lemma parse_0730: "parseTimeString ''07:30'' = Inr (7, 30)"
  by code_simp


lemma todayAt_bounds:
  assumes "0 \<le> h" "h \<le> 23" "0 \<le> m" "m \<le> 59"
  shows "LocalTime z now - MS_PER_DAY < todayAt z now h m"
    "todayAt z now h m < LocalTime z now + MS_PER_DAY"
proof -
  let ?L = "LocalTime z now"
  have a: "0 \<le> h * 3600000 + m * 60000" "h * 3600000 + m * 60000 < 86400000"
    using assms by auto
  have b: "?L = ?L div 86400000 * 86400000 + ?L mod 86400000" by simp
  have c: "0 \<le> ?L mod 86400000" "?L mod 86400000 < 86400000" by simp_all
  show "?L - MS_PER_DAY < todayAt z now h m" "todayAt z now h m < ?L + MS_PER_DAY"
    using a b c unfolding todayAt_def MS_PER_DAY_def by linarith+
qed

text \<open>
  C6, as the code has it. For a valid time of day and an empty repeat set, in a zone
  that is steady around \<open>now\<close> (no change of offset between \<open>now\<close> and today's and
  tomorrow's time of day), the next trigger is strictly after \<open>now\<close> and at most 24
  hours after it: today at the time of day when that instant is strictly after \<open>now\<close>,
  the same time of day one day later otherwise.
\<close>

theorem one_time_trigger_within_24h_steady_offset:
  assumes "parseTimeString (time alarm) = Inr (h, m)" and "repeats alarm = []"
    and "steadyOffset z now h m"
  shows "\<exists>t. getNextAlarmTimeIn z alarm now = Inr t \<and> now < t \<and> t - now \<le> MS_PER_DAY \<and>
     t = (if setHoursIn z now h m > now then setHoursIn z now h m
          else addDaysIn z (setHoursIn z now h m) 1) \<and>
     LocalTime z t = (if setHoursIn z now h m > now then todayAt z now h m
                      else todayAt z now h m + MS_PER_DAY)"
proof -
  from assms(1) have r: "0 \<le> h" "h \<le> 23" "0 \<le> m" "m \<le> 59"
    using parseTimeString_range by blast+
  let ?off = "offsetAt z now" and ?c = "todayAt z now h m"
  from assms(3) have s: "UTC z ?c = ?c - ?off" "offsetAt z (?c - ?off) = ?off"
    "UTC z (?c + MS_PER_DAY) = ?c + MS_PER_DAY - ?off"
    "offsetAt z (?c + MS_PER_DAY - ?off) = ?off"
    by (simp_all add: steadyOffset_def Let_def)
  have sh: "setHoursIn z now h m = ?c - ?off" by (simp add: setHoursIn_def s(1))
  have ad: "addDaysIn z (?c - ?off) 1 = ?c + MS_PER_DAY - ?off"
    by (simp add: addDaysIn_def LocalTime_def s(2) s(3))
  have l1: "LocalTime z (?c - ?off) = ?c" by (simp add: LocalTime_def s(2))
  have l2: "LocalTime z (?c + MS_PER_DAY - ?off) = ?c + MS_PER_DAY"
    by (simp add: LocalTime_def s(4))
  have e: "getNextAlarmTimeIn z alarm now =
      Inr (if setHoursIn z now h m > now then setHoursIn z now h m
           else addDaysIn z (setHoursIn z now h m) 1)"
    using assms(1,2) by (simp add: getNextAlarmTimeIn_def Let_def)
  have L: "LocalTime z now = now + ?off" by (simp add: LocalTime_def)
  show ?thesis
    using e todayAt_bounds[OF r, of z now] L l1 l2 by (auto simp: sh ad)
qed

text \<open>
  New York, 23 October 2025, 08:00 local (12:00 UTC), alarm for 07:30: the trigger is
  24 October 07:30 local (11:30 UTC), 23 hours 30 minutes on.
\<close>

theorem one_time_trigger_within_24h_steady_offset_witness:
  "getNextAlarmTimeIn newYork (sampleAlarm ''07:30'' []) (mkDate 2025 10 23 12 0)
     = Inr (mkDate 2025 10 24 11 30) \<and>
   mkDate 2025 10 23 12 0 < mkDate 2025 10 24 11 30 \<and>
   mkDate 2025 10 24 11 30 - mkDate 2025 10 23 12 0 \<le> MS_PER_DAY \<and>
   LocalTime newYork (mkDate 2025 10 24 11 30) = mkDate 2025 10 24 7 30"
proof -
  have p: "parseTimeString (time (sampleAlarm ''07:30'' [])) = Inr (7, 30)"
    by (simp add: sampleAlarm_def parse_0730)
  have q: "repeats (sampleAlarm ''07:30'' []) = []"
    by (simp add: sampleAlarm_def)
  have s: "steadyOffset newYork (mkDate 2025 10 23 12 0) 7 30" by code_simp
  have v: "setHoursIn newYork (mkDate 2025 10 23 12 0) 7 30 = mkDate 2025 10 23 11 30"
    "addDaysIn newYork (mkDate 2025 10 23 11 30) 1 = mkDate 2025 10 24 11 30"
    "todayAt newYork (mkDate 2025 10 23 12 0) 7 30 + MS_PER_DAY = mkDate 2025 10 24 7 30"
    by code_simp+
  have w: "\<not> mkDate 2025 10 23 12 0 < mkDate 2025 10 23 11 30" by code_simp
  show ?thesis
    using one_time_trigger_within_24h_steady_offset[OF p q s] w by (auto simp: v)
qed

text \<open>
  C6 as stated fails in a zone with daylight saving. New York, 1 November 2025, 08:00
  local (12:00 UTC), alarm for 07:30: the trigger is 2 November 07:30 local (12:30 UTC),
  24 hours 30 minutes on, the night being an hour longer. And on 9 March, at 01:00 local
  (06:00 UTC), an alarm for 02:30, a time that day does not have, gets a trigger that
  shows 03:30: it is not today's date at the time of day.
\<close>

theorem one_time_trigger_across_offset_change:
  "parseTimeString (time (sampleAlarm ''07:30'' [])) = Inr (7, 30) \<and>
   repeats (sampleAlarm ''07:30'' []) = [] \<and>
   getNextAlarmTimeIn newYork (sampleAlarm ''07:30'' []) (mkDate 2025 11 1 12 0)
     = Inr (mkDate 2025 11 2 12 30) \<and>
   mkDate 2025 11 2 12 30 - mkDate 2025 11 1 12 0 = 88200000 \<and>
   \<not> mkDate 2025 11 2 12 30 - mkDate 2025 11 1 12 0 \<le> MS_PER_DAY \<and>
   getNextAlarmTimeIn newYork (sampleAlarm ''02:30'' []) (mkDate 2025 3 9 6 0)
     = Inr (mkDate 2025 3 9 7 30) \<and>
   LocalTime newYork (mkDate 2025 3 9 7 30) = mkDate 2025 3 9 3 30"
  by code_simp

text \<open>A zone that is quiet around \<open>now\<close> is steady around it, for every time of day.\<close>

lemma offsetFrom_bound:
  assumes "\<bar>off\<bar> \<le> B" "list_all (\<lambda>(u, off'). P u \<and> \<bar>off'\<bar> \<le> B) ts"
  shows "\<bar>offsetFrom off ts t\<bar> \<le> B"
  using assms by (induction ts arbitrary: off) auto

lemma offsetFrom_quiet:
  assumes "list_all (\<lambda>(u, off'). (u \<le> now - W \<or> now + W \<le> u) \<and> Q off') ts"
    and "\<bar>t - now\<bar> < W"
  shows "offsetFrom off ts t = offsetFrom off ts now"
  using assms by (induction ts arbitrary: off) auto

lemma utcFrom_quiet:
  assumes "\<bar>off\<bar> \<le> D"
    and "list_all (\<lambda>(u, off'). (u \<le> now - 7 * D \<or> now + 7 * D \<le> u) \<and> \<bar>off'\<bar> \<le> D) ts"
    and "\<bar>local - offsetFrom off ts now - now\<bar> \<le> 2 * D"
  shows "utcFrom off ts local = local - offsetFrom off ts now"
  using assms
proof (induction ts arbitrary: off)
  case Nil
  then show ?case by simp
next
  case (Cons p ts)
  obtain u off' where p: "p = (u, off')" by (cases p)
  from Cons.prems(2) p have r: "u \<le> now - 7 * D \<or> now + 7 * D \<le> u" "\<bar>off'\<bar> \<le> D"
    and rest: "list_all (\<lambda>(u, off'). (u \<le> now - 7 * D \<or> now + 7 * D \<le> u) \<and> \<bar>off'\<bar> \<le> D) ts"
    by auto
  have D: "0 \<le> D" using Cons.prems(1) by linarith
  show ?case
  proof (cases "now < u")
    case True
    with r(1) D have "now + 7 * D \<le> u" by linarith
    with True Cons.prems(3) p D show ?thesis by auto
  next
    case False
    with r(1) D have u: "u \<le> now - 7 * D" by linarith
    let ?o = "offsetFrom off' ts now"
    have o: "\<bar>?o\<bar> \<le> D" by (rule offsetFrom_bound[OF r(2) rest])
    from False p Cons.prems(3) have l: "\<bar>local - ?o - now\<bar> \<le> 2 * D" by simp
    have "\<not> local - off < u" "\<not> local - off' < u"
      using l o u Cons.prems(1) r(2) by linarith+
    with p False Cons.IH[OF r(2) rest l] show ?thesis by simp
  qed
qed

lemma quiet_zone_steady:
  assumes "0 \<le> h" "h \<le> 23" "0 \<le> m" "m \<le> 59" and q: "quietAround z now"
  shows "steadyOffset z now h m"
proof -
  let ?off = "offsetAt z now" and ?c = "todayAt z now h m"
  from q have b: "\<bar>baseOffset z\<bar> \<le> MS_PER_DAY"
    and ts: "list_all (\<lambda>(u, off). (u \<le> now - 7 * MS_PER_DAY \<or> now + 7 * MS_PER_DAY \<le> u) \<and>
                  \<bar>off\<bar> \<le> MS_PER_DAY) (transitions z)"
    by (simp_all add: quietAround_def)
  have L: "LocalTime z now = now + ?off" by (simp add: LocalTime_def)
  note tb = todayAt_bounds[OF assms(1-4), of z now]
  have c1: "\<bar>?c - ?off - now\<bar> < MS_PER_DAY" using tb L by linarith
  have c2: "\<bar>?c + MS_PER_DAY - ?off - now\<bar> < 2 * MS_PER_DAY" using tb L by linarith
  have d: "(0::int) < MS_PER_DAY" by (simp add: MS_PER_DAY_def)
  have u1: "UTC z ?c = ?c - ?off"
    unfolding UTC_def offsetAt_def
    by (rule utcFrom_quiet[OF b ts]) (use c1 d in \<open>simp add: offsetAt_def\<close>)
  have u2: "UTC z (?c + MS_PER_DAY) = ?c + MS_PER_DAY - ?off"
    unfolding UTC_def offsetAt_def
    using utcFrom_quiet[OF b ts, of "?c + MS_PER_DAY"] c2 by (simp add: offsetAt_def)
  have o1: "offsetAt z (?c - ?off) = ?off"
    unfolding offsetAt_def
    by (rule offsetFrom_quiet[OF ts]) (use c1 d in \<open>simp add: offsetAt_def\<close>)
  have o2: "offsetAt z (?c + MS_PER_DAY - ?off) = ?off"
    unfolding offsetAt_def
    by (rule offsetFrom_quiet[OF ts]) (use c2 d in \<open>simp add: offsetAt_def\<close>)
  show ?thesis
    using u1 u2 o1 o2 by (simp add: steadyOffset_def Let_def)
qed

text \<open>
  A zone of constant offset is steady everywhere, and in it the calculation is the
  wall-clock one, moved by the offset.
\<close>

lemma fixedZone_steady: "steadyOffset (fixedZone off) now h m"
  by (simp add: steadyOffset_def fixedZone_def UTC_def offsetAt_def Let_def)

lemma fixed_basics [simp]:
  "LocalTime (fixedZone off) t = t + off"
  "UTC (fixedZone off) local = local - off"
  by (simp_all add: LocalTime_def UTC_def offsetAt_def fixedZone_def)

lemma fixed_setHours: "setHoursIn (fixedZone off) t h m = setHours (t + off) h m - off"
  by (simp add: setHoursIn_def todayAt_def setHours_def localDay_def)

lemma fixed_addDays: "addDaysIn (fixedZone off) t n = addDays (t + off) n - off"
  by (simp add: addDaysIn_def addDays_def)

lemma fixed_getDay: "getDayIn (fixedZone off) t = getDay (t + off)"
  by (simp add: getDayIn_def getDay_def localDay_def)

lemma fixed_nextDate:
  "nextDateIn (fixedZone off) now k h m = nextDate (now + off) k h m - off"
  by (simp add: nextDateIn_def nextDate_def fixed_setHours fixed_addDays)

lemma fixed_occurrence:
  "getNextWeekdayOccurrenceIn (fixedZone off) day t now
     = map_sum id (\<lambda>x. x - off) (getNextWeekdayOccurrence day t (now + off))"
  by (auto simp: getNextWeekdayOccurrenceIn_def getNextWeekdayOccurrence_def Let_def
      fixed_setHours fixed_getDay fixed_nextDate split: sum.splits)

lemma fixed_loop:
  "nextOccurrenceLoopIn (fixedZone off) days t now acc
     = map_sum id (map_option (\<lambda>x. x - off))
         (nextOccurrenceLoop days t (now + off) (map_option (\<lambda>x. x + off) acc))"
proof (induction days arbitrary: acc)
  case Nil
  then show ?case by (simp add: option.map_comp comp_def option.map_ident)
next
  case (Cons d ds)
  show ?case
  proof (cases "getNextWeekdayOccurrence d t (now + off)")
    case (Inl e)
    then show ?thesis by (simp add: fixed_occurrence)
  next
    case (Inr x)
    then show ?thesis
      by (cases acc) (simp_all add: fixed_occurrence Cons.IH)
  qed
qed

lemma fixed_repeatsToday:
  "repeatsTodayIn (fixedZone off) rs now = repeatsToday rs (now + off)"
  by (simp add: repeatsTodayIn_def repeatsToday_def fixed_getDay)

lemma fixed_getNextAlarmTime:
  "getNextAlarmTimeIn (fixedZone off) alarm now
     = map_sum id (\<lambda>x. x - off) (getNextAlarmTime alarm (now + off))"
  by (auto simp: getNextAlarmTimeIn_def getNextAlarmTime_def Let_def fixed_setHours
      fixed_addDays fixed_repeatsToday fixed_loop split: sum.splits option.splits)










lemma isValidTimeString_iff:
  "isValidTimeString t =
     (\<exists>h m. parseIntOpt (hoursStr t) = Some h \<and> parseIntOpt (minutesStr t) = Some m \<and>
        0 \<le> h \<and> h \<le> 23 \<and> 0 \<le> m \<and> m \<le> 59)"
  by (auto simp: isValidTimeString_def parseTimeString_def
      split: option.splits sum.splits if_splits)

lemma parse_trailing_garbage: "parseTimeString ''7:30abc'' = Inr (7, 30)"
  by code_simp

lemma parse_three_parts: "parseTimeString ''07:3x:59'' = Inr (7, 3)"
  by code_simp

lemma not_HHmm_examples: "\<not> isHHmm ''7:30abc''" "\<not> isHHmm ''07:3x:59''"
  by code_simp+

text \<open>
  C10. \<open>parseTimeString\<close>, and so \<open>isValidTimeString\<close>, accepts a string exactly when
  the numeric prefixes of its first two colon-separated pieces parse to an hour in
  [0,23] and a minute in [0,59]; the shape HH:mm is not checked: \<open>7:30abc\<close> and
  \<open>07:3x:59\<close> are not of that shape and are accepted, as 7:30 and 7:03.
\<close>

theorem parseTimeString_accepts_non_HHmm:
  "parseTimeString ''7:30abc'' = Inr (7, 30) \<and> \<not> isHHmm ''7:30abc'' \<and>
   parseTimeString ''07:3x:59'' = Inr (7, 3) \<and> \<not> isHHmm ''07:3x:59'' \<and>
   isValidTimeString ''7:30abc'' \<and> isValidTimeString ''07:3x:59'' \<and>
   (\<forall>t. isValidTimeString t =
     (\<exists>h m. parseIntOpt (hoursStr t) = Some h \<and> parseIntOpt (minutesStr t) = Some m \<and>
        0 \<le> h \<and> h \<le> 23 \<and> 0 \<le> m \<and> m \<le> 59))"
  using parse_trailing_garbage parse_three_parts not_HHmm_examples isValidTimeString_iff
  by (simp add: isValidTimeString_def)

section \<open>Properties of the notification handler\<close>

lemma shouldShow_premature:
  assumes "scheduledIso request = Some (Some expected)" "expected - now > 30 * 1000"
  shows "shouldShow request now = Inr False"
proof -
  have "(of_int (expected - now) :: rat) > of_int (30 * 1000)"
    using assms(2) by (simp only: of_int_less_iff)
  then have "(of_int (expected - now) :: rat) / 1000 > 30" by simp
  then show ?thesis
    using assms(1) by (simp add: shouldShow_def TOLERANCE_SECONDS_def Let_def)
qed

text \<open>
  C2. The tolerance is 30 seconds. A notification that arrives more than 30 seconds
  before the instant it was scheduled for (the \<^verbatim>\<open>scheduledAt\<close> of its data, or else
  the date of its trigger) is shown in no way: the handler returns, and every flag of
  the behaviour it returns is false. The context state is what it was, so the alarm keeps \<^verbatim>\<open>isEnabled\<close> and its
  \<^verbatim>\<open>notificationId\<close>.
\<close>

theorem premature_fire_is_ignored:
  assumes "scheduledIso request = Some (Some expected)" and "expected - now > 30 * 1000"
  shows "TOLERANCE_SECONDS = 30 \<and> notificationReceived request now c = (Inr allHidden, c)"
  using shouldShow_premature[OF assms]
  by (simp add: notificationReceived_def handleNotification_def allHidden_def
      TOLERANCE_SECONDS_def)

text \<open>Five minutes early.\<close>

theorem premature_fire_is_ignored_witness:
  "notificationReceived sampleRequest (mkDate 2025 10 24 7 25) (ctx (sampleWorld []))
     = (Inr allHidden, ctx (sampleWorld []))"
proof -
  have a: "scheduledIso sampleRequest = Some (Some (mkDate 2025 10 24 7 30))"
    by (simp add: scheduledIso_def sampleRequest_def)
  have b: "mkDate 2025 10 24 7 30 - mkDate 2025 10 24 7 25 > 30 * 1000"
    by (simp add: mkDate_def)
  show ?thesis
    using premature_fire_is_ignored[OF a b] by simp
qed

section \<open>Properties of the scheduler\<close>

lemma rescheduleLoop_trace:
  "rescheduleLoop as now m n
     = (lastSuccess (scheduleAttempts as now n) m, notifierAfter as now n)"
proof (induction as arbitrary: m n)
  case Nil
  then show ?case by simp
next
  case (Cons a as)
  show ?case
  proof (cases "scheduleAlarm a now n")
    case (Pair r n')
    then show ?thesis by (cases r) (simp_all add: Cons.IH del: fun_upd_apply)
  qed
qed

lemma scheduleAttempts_alarms: "map fst (scheduleAttempts as now n) = as"
  by (induction as arbitrary: n) simp_all

lemma lastSuccess_None:
  "(lastSuccess atts m k = None)
     = (m k = None \<and> \<not> (\<exists>a t. (a, Inr t) \<in> set atts \<and> id' a = k))"
proof (induction atts m rule: lastSuccess.induct)
  case (1 m)
  then show ?case by simp
next
  case (2 a e rest m)
  then show ?case by auto
next
  case (3 a t rest m)
  have "(lastSuccess ((a, Inr t) # rest) m k = None)
      = (lastSuccess rest (m(id' a \<mapsto> t)) k = None)"
    by (simp del: fun_upd_apply)
  also have "\<dots> = ((m(id' a \<mapsto> t)) k = None \<and>
      \<not> (\<exists>a t. (a, Inr t) \<in> set rest \<and> id' a = k))"
    by (rule 3)
  also have "\<dots> = (m k = None \<and>
      \<not> (\<exists>b u. (b, Inr u) \<in> set ((a, Inr t) # rest) \<and> id' b = k))"
    by auto
  finally show ?case .
qed

text \<open>
  C9. \<open>rescheduleAllAlarms\<close> never throws. It calls \<open>scheduleAlarm\<close> once for every
  enabled alarm of its input, in order, and for no other; a call that throws does not
  stop the calls after it. The map it returns holds, for each id, the notification id
  of the last call for that id that returned, and has no entry for an id none of whose
  calls returned.
\<close>

theorem rescheduleAllAlarms_isolates_failures:
  "rescheduleAllAlarms as now n =
     (Inr (lastSuccess (scheduleAttempts (filter isEnabled as) now n) Map.empty),
      notifierAfter (filter isEnabled as) now n) \<and>
   map fst (scheduleAttempts (filter isEnabled as) now n) = filter isEnabled as \<and>
   (\<forall>k. (lastSuccess (scheduleAttempts (filter isEnabled as) now n) Map.empty k = None) =
      (\<not> (\<exists>a t. (a, Inr t) \<in> set (scheduleAttempts (filter isEnabled as) now n) \<and>
             id' a = k)))"
  by (simp add: rescheduleAllAlarms_def Let_def rescheduleLoop_trace scheduleAttempts_alarms
      lastSuccess_None)

text \<open>
  Four alarms: the first is scheduled; the second has a time that does not parse; the
  third is disabled; the platform rejects the fourth. Only the first is in the map.
\<close>

theorem rescheduleAllAlarms_isolates_failures_witness:
  "case fst (rescheduleAllAlarms
        [armedAlarm, armedAlarm\<lparr>id' := ''b'', time := ''bad''\<rparr>,
         armedAlarm\<lparr>id' := ''c'', isEnabled := False\<rparr>, armedAlarm\<lparr>id' := ''d''\<rparr>]
        now0 (notifier (sampleWorld [Some ''n2'', None]))) of
     Inl e \<Rightarrow> False
   | Inr m \<Rightarrow> m ''alarm-1'' = Some ''n2'' \<and> m ''b'' = None \<and> m ''c'' = None \<and> m ''d'' = None"
proof -
  let ?as = "[armedAlarm, armedAlarm\<lparr>id' := ''b'', time := ''bad''\<rparr>,
         armedAlarm\<lparr>id' := ''c'', isEnabled := False\<rparr>, armedAlarm\<lparr>id' := ''d''\<rparr>]"
  let ?n = "notifier (sampleWorld [Some ''n2'', None])"
  have a: "scheduleAttempts (filter isEnabled ?as) now0 ?n =
      [(armedAlarm, Inr ''n2''),
       (armedAlarm\<lparr>id' := ''b'', time := ''bad''\<rparr>, Inl (Error ''Failed to schedule alarm'')),
       (armedAlarm\<lparr>id' := ''d''\<rparr>, Inl (Error ''Failed to schedule alarm''))]"
    by code_simp
  have i: "id' armedAlarm = ''alarm-1''"
    by (simp add: armedAlarm_def sampleAlarm_def)
  show ?thesis
    using rescheduleAllAlarms_isolates_failures[of ?as now0 ?n] unfolding a by (simp add: i)
qed

lemma cancelIfPresent_ok:
  assumes "cancelIfPresent x n = (Inr u, n1)"
  shows "scheduled n1 = withoutToken x (scheduled n)" "scheduleOutcomes n1 = scheduleOutcomes n"
  using assms
  by (auto simp: cancelIfPresent_def cancelAlarm_def cancelNotification_def
      cancelScheduledNotificationAsync_def withoutToken_def
      split: option.splits if_splits prod.splits list.splits bool.splits)

lemma scheduleAlarm_ok:
  assumes "scheduleAlarm a now n = (Inr nid, n2)"
  shows "\<exists>d. calculateNextTrigger a now = Inr d \<and>
     scheduled n2 = scheduled n @ [requestFor a nid d] \<and>
     scheduleOutcomes n = Some nid # scheduleOutcomes n2"
  using assms
  by (auto simp: scheduleAlarm_def scheduleNotification_def scheduleNotificationAsync_def
      requestFor_def Let_def
      split: sum.splits option.splits if_splits prod.splits list.splits)

text \<open>What the reschedule block has done when it ends without an exception.\<close>

lemma rescheduleBlock_ok:
  assumes "rescheduleBlock existing upd now n = (Inr a, n')"
  shows "if isEnabled upd
         then (\<exists>nid d. calculateNextTrigger upd now = Inr d \<and>
                 a = upd\<lparr>notificationId := Some nid\<rparr> \<and>
                 scheduled n' =
                   withoutToken (notificationId existing) (scheduled n) @ [requestFor upd nid d] \<and>
                 scheduleOutcomes n = Some nid # scheduleOutcomes n')
         else a = upd\<lparr>notificationId := None\<rparr> \<and>
              scheduled n' = withoutToken (notificationId existing) (scheduled n) \<and>
              scheduleOutcomes n' = scheduleOutcomes n"
proof (cases "cancelIfPresent (notificationId existing) n")
  case (Pair r n1)
  show ?thesis
  proof (cases r)
    case (Inl e)
    with Pair assms show ?thesis by (simp add: rescheduleBlock_def)
  next
    case (Inr u)
    note c = cancelIfPresent_ok[OF Pair[unfolded Inr]]
    show ?thesis
    proof (cases "isEnabled upd")
      case False
      with Pair Inr assms c show ?thesis by (auto simp: rescheduleBlock_def)
    next
      case True
      obtain r2 n2 where s: "scheduleAlarm upd now n1 = (r2, n2)"
        by (cases "scheduleAlarm upd now n1")
      show ?thesis
      proof (cases r2)
        case (Inl e)
        with Pair \<open>r = Inr u\<close> assms True s show ?thesis by (simp add: rescheduleBlock_def)
      next
        case (Inr nid)
        from scheduleAlarm_ok[OF s[unfolded Inr]] obtain d where
          d: "calculateNextTrigger upd now = Inr d"
            "scheduled n2 = scheduled n1 @ [requestFor upd nid d]"
            "scheduleOutcomes n1 = Some nid # scheduleOutcomes n2" by blast
        from Pair \<open>r = Inr u\<close> assms True s Inr
        have "a = upd\<lparr>notificationId := Some nid\<rparr>" "n' = n2"
          by (auto simp: rescheduleBlock_def)
        with d c True show ?thesis by auto
      qed
    qed
  qed
qed

lemma rescheduleBlock_armed:
  assumes "rescheduleBlock existing upd now n = (Inr a, n')"
  shows "armedIffEnabled a" "id' a = id' upd"
  using rescheduleBlock_ok[OF assms] by (auto simp: armedIffEnabled_def split: if_splits)

section \<open>Properties of the context operations\<close>

lemma getAlarmById_setError [simp]: "getAlarmById (setError e w) i = getAlarmById w i"
  by (simp add: getAlarmById_def setError_def)

lemma getAlarmById_notifier [simp]: "getAlarmById (w\<lparr>notifier := n\<rparr>) i = getAlarmById w i"
  by (simp add: getAlarmById_def)

lemma merged_fields [simp]:
  "id' (mergeUpdates e u i now) = i"
  "isEnabled (mergeUpdates e u i now)
     = (case upd_isEnabled u of None \<Rightarrow> isEnabled e | Some v \<Rightarrow> v)"
  "notificationId (mergeUpdates e u i now)
     = (case upd_notificationId u of None \<Rightarrow> notificationId e | Some v \<Rightarrow> v)"
  by (simp_all add: mergeUpdates_def)

text \<open>
  C1, as the code has it. When the input is enabled and scheduling fails, \<open>addAlarm\<close>
  rejects with the error \<open>Failed to schedule alarm notification\<close> and sets the context
  error to \<open>Failed to add alarm\<close>; no alarm is created: the alarms of the context and
  the storage are what they were.
\<close>

theorem addAlarm_schedule_failure_creates_nothing:
  assumes "isEnabled alarmInput"
    and "fst (scheduleAlarm (newAlarmOf alarmInput i now) now (notifier w)) = Inl e"
  shows "fst (addAlarm alarmInput i now w)
       = Inl (Error ''Failed to schedule alarm notification'') \<and>
     alarms (ctx (snd (addAlarm alarmInput i now w))) = alarms (ctx w) \<and>
     storage (snd (addAlarm alarmInput i now w)) = storage w \<and>
     error (ctx (snd (addAlarm alarmInput i now w))) = Some ''Failed to add alarm''"
  using assms
  by (auto simp: addAlarm_def Let_def setError_def newAlarmOf_def split: prod.splits sum.splits)

theorem addAlarm_schedule_failure_creates_nothing_witness:
  "fst (addAlarm sampleInput ''alarm-2'' now0 (sampleWorld [None]))
      = Inl (Error ''Failed to schedule alarm notification'') \<and>
   alarms (ctx (snd (addAlarm sampleInput ''alarm-2'' now0 (sampleWorld [None]))))
      = [armedAlarm] \<and>
   storedAlarms (storage (snd (addAlarm sampleInput ''alarm-2'' now0 (sampleWorld [None]))))
      = [armedAlarm]"
proof -
  have a: "isEnabled sampleInput" by (simp add: sampleInput_def)
  have b: "fst (scheduleAlarm (newAlarmOf sampleInput ''alarm-2'' now0) now0
                  (notifier (sampleWorld [None])))
      = Inl (Error ''Failed to schedule alarm'')" by code_simp
  show ?thesis
    using addAlarm_schedule_failure_creates_nothing[OF a b]
    by (simp add: sampleWorld_def storedAlarms_def)
qed

text \<open>
  C1 as stated fails: the platform rejects the schedule call for an enabled input, and
  afterwards neither the storage nor the context holds an alarm of the new id.
\<close>

theorem addAlarm_schedule_failure_not_persisted:
  "isEnabled sampleInput \<and>
   fst (scheduleAlarm (newAlarmOf sampleInput ''alarm-2'' now0) now0
          (notifier (sampleWorld [None])))
     = Inl (Error ''Failed to schedule alarm'') \<and>
   ''alarm-2'' \<notin> set (map id'
       (storedAlarms (storage (snd (addAlarm sampleInput ''alarm-2'' now0 (sampleWorld [None])))))) \<and>
   ''alarm-2'' \<notin> set (map id'
       (alarms (ctx (snd (addAlarm sampleInput ''alarm-2'' now0 (sampleWorld [None]))))))"
  by code_simp

text \<open>The call through the latest render, written out.\<close>

lemma updateAlarm_unfold:
  "updateAlarm i updates now w0 =
     (let w = setError None w0
      in case getAlarmById w i of
           None \<Rightarrow> (Inl (Error ''Alarm not found''), setError (Some ''Failed to update alarm'') w)
         | Some existingAlarm \<Rightarrow>
             (case (if needsReschedule updates
                    then rescheduleBlock existingAlarm
                           (mergeUpdates existingAlarm updates i now) now (notifier w)
                    else (Inr (mergeUpdates existingAlarm updates i now), notifier w)) of
                (Inl err, n') \<Rightarrow>
                  (Inl err, setError (Some ''Failed to update alarm'') (w\<lparr>notifier := n'\<rparr>))
              | (Inr updatedAlarm, n') \<Rightarrow>
                  (case storage_updateAlarm updatedAlarm now (storage w) of
                     (Inl err, st') \<Rightarrow>
                       (Inl err,
                        setError (Some ''Failed to update alarm'')
                          (w\<lparr>notifier := n', storage := st'\<rparr>))
                   | (Inr u, st') \<Rightarrow>
                       (Inr (),
                        setAlarms (map (\<lambda>a. if id' a = i then updatedAlarm else a))
                          (w\<lparr>notifier := n', storage := st'\<rparr>)))))"
  by (simp add: updateAlarm_def updateAlarmOf_def getAlarmById_def setError_def)

lemma updateAlarm_notifier:
  assumes "getAlarmById w i = Some existing"
  shows "notifier (snd (updateAlarm i u now w)) =
     (if needsReschedule u
      then snd (rescheduleBlock existing (mergeUpdates existing u i now) now (notifier w))
      else notifier w)"
proof -
  have g: "getAlarmById (setError None w) i = Some existing" using assms by simp
  show ?thesis
    unfolding updateAlarm_unfold Let_def g
    by (auto simp: setError_def setAlarms_def split: prod.splits sum.splits)
qed

text \<open>What a successful update leaves in the context and the notifier.\<close>

lemma updateAlarm_ok:
  assumes "updateAlarm i u now w = (Inr (), w')"
  shows "\<exists>existing a. getAlarmById w i = Some existing \<and>
     alarms (ctx w') = map (\<lambda>x. if id' x = i then a else x) (alarms (ctx w)) \<and>
     (if needsReschedule u
      then rescheduleBlock existing (mergeUpdates existing u i now) now (notifier w)
             = (Inr a, notifier w')
      else a = mergeUpdates existing u i now \<and> notifier w' = notifier w)"
proof (cases "getAlarmById w i")
  case None
  then have "getAlarmById (setError None w) i = None" by simp
  with assms show ?thesis unfolding updateAlarm_unfold Let_def by simp
next
  case (Some existing)
  then have g: "getAlarmById (setError None w) i = Some existing" by simp
  show ?thesis
    using assms Some unfolding updateAlarm_unfold Let_def g
    by (auto simp: setError_def setAlarms_def split: prod.splits sum.splits if_splits)
qed

lemma updateAlarm_fails:
  assumes "updateAlarm i u now w = (Inl e, w')"
  shows "alarms (ctx w') = alarms (ctx w)"
  using assms
  by (auto simp: updateAlarm_unfold Let_def setError_def setAlarms_def
      split: prod.splits sum.splits option.splits if_splits)

text \<open>
  C5, as the code has it. \<open>updateAlarm\<close> runs the cancel-old/schedule-new block exactly
  when the update sets any of \<^verbatim>\<open>time\<close>, \<^verbatim>\<open>repeats\<close>, \<^verbatim>\<open>isEnabled\<close> or
  \<^verbatim>\<open>soundUri\<close>, whether or not the value set differs from the old one. An update
  that sets none of the four (one that sets only \<^verbatim>\<open>snoozeDuration\<close>, say) leaves the
  notifier as it was. When the block has run and the update has succeeded, the old
  notification is cancelled and, if the updated alarm is enabled, one request for its
  next trigger is added.
\<close>

theorem update_reschedules_iff_schedule_fields_set:
  assumes "getAlarmById w i = Some existingAlarm"
  shows "needsReschedule updates =
       (upd_time updates \<noteq> None \<or> upd_repeats updates \<noteq> None \<or>
        upd_isEnabled updates \<noteq> None \<or> upd_soundUri updates \<noteq> None) \<and>
     (\<not> needsReschedule updates \<longrightarrow>
        notifier (snd (updateAlarm i updates now w)) = notifier w) \<and>
     (needsReschedule updates \<longrightarrow>
        notifier (snd (updateAlarm i updates now w)) =
          snd (rescheduleBlock existingAlarm (mergeUpdates existingAlarm updates i now) now
                 (notifier w))) \<and>
     (needsReschedule updates \<and> fst (updateAlarm i updates now w) = Inr () \<longrightarrow>
        (if isEnabled (mergeUpdates existingAlarm updates i now)
         then \<exists>nid d.
                calculateNextTrigger (mergeUpdates existingAlarm updates i now) now = Inr d \<and>
                scheduled (notifier (snd (updateAlarm i updates now w))) =
                  withoutToken (notificationId existingAlarm) (scheduled (notifier w)) @
                  [requestFor (mergeUpdates existingAlarm updates i now) nid d]
         else scheduled (notifier (snd (updateAlarm i updates now w))) =
                withoutToken (notificationId existingAlarm) (scheduled (notifier w))))"
proof -
  let ?upd = "mergeUpdates existingAlarm updates i now"
  let ?after = "scheduled (notifier (snd (updateAlarm i updates now w)))"
  let ?before = "withoutToken (notificationId existingAlarm) (scheduled (notifier w))"
  have a: "needsReschedule updates \<and> fst (updateAlarm i updates now w) = Inr () \<longrightarrow>
        (if isEnabled ?upd
         then \<exists>nid d. calculateNextTrigger ?upd now = Inr d \<and>
                ?after = ?before @ [requestFor ?upd nid d]
         else ?after = ?before)"
  proof
    assume h: "needsReschedule updates \<and> fst (updateAlarm i updates now w) = Inr ()"
    obtain w' where w': "updateAlarm i updates now w = (Inr (), w')"
      using h by (cases "updateAlarm i updates now w") auto
    from updateAlarm_ok[OF w'] assms h obtain a where
      r: "rescheduleBlock existingAlarm ?upd now (notifier w) = (Inr a, notifier w')" by auto
    show "if isEnabled ?upd
         then \<exists>nid d. calculateNextTrigger ?upd now = Inr d \<and>
                ?after = ?before @ [requestFor ?upd nid d]
         else ?after = ?before"
      using rescheduleBlock_ok[OF r] w' by (auto split: if_splits)
  qed
  show ?thesis
    using a updateAlarm_notifier[OF assms, of updates now] by (simp add: needsReschedule_def)
qed

text \<open>
  An update of the label leaves the notifier alone; an update of the time cancels \<open>n1\<close>
  and registers \<open>n2\<close>.
\<close>

theorem update_reschedules_iff_schedule_fields_set_witness:
  "notifier (snd (updateAlarm ''alarm-1'' (noUpdates\<lparr>upd_label := Some ''Run''\<rparr>) now0
      (sampleWorld [Some ''n2''])))
     = notifier (sampleWorld [Some ''n2'']) \<and>
   map identifier' (scheduled (notifier (snd (updateAlarm ''alarm-1''
      (noUpdates\<lparr>upd_time := Some ''08:15''\<rparr>) now0 (sampleWorld [Some ''n2''])))))
     = [''n2'']"
proof -
  have g: "getAlarmById (sampleWorld [Some ''n2'']) ''alarm-1'' = Some armedAlarm" by code_simp
  have a: "\<not> needsReschedule (noUpdates\<lparr>upd_label := Some ''Run''\<rparr>)" by code_simp
  have b: "needsReschedule (noUpdates\<lparr>upd_time := Some ''08:15''\<rparr>)" by code_simp
  have c: "snd (rescheduleBlock armedAlarm
                  (mergeUpdates armedAlarm (noUpdates\<lparr>upd_time := Some ''08:15''\<rparr>)
                     ''alarm-1'' now0)
                  now0 (notifier (sampleWorld [Some ''n2''])))
     = \<lparr>scheduled =
          [requestFor (mergeUpdates armedAlarm (noUpdates\<lparr>upd_time := Some ''08:15''\<rparr>)
                         ''alarm-1'' now0) ''n2'' (mkDate 2025 10 23 8 15)],
        scheduleOutcomes = [], cancelOutcomes = []\<rparr>" by code_simp
  show ?thesis
    using update_reschedules_iff_schedule_fields_set[OF g,
        of "noUpdates\<lparr>upd_label := Some ''Run''\<rparr>" now0]
      update_reschedules_iff_schedule_fields_set[OF g,
        of "noUpdates\<lparr>upd_time := Some ''08:15''\<rparr>" now0] a b
    by (simp add: c requestFor_def)
qed

text \<open>
  C5 as stated fails both ways. An update that changes \<^verbatim>\<open>snoozeDuration\<close> from 10 to 5
  succeeds and leaves the notifier as it was: nothing is cancelled or scheduled. An
  update that sets \<^verbatim>\<open>soundUri\<close> to the value it has changes none of the fields the
  claim lists, and yet \<open>n1\<close> is cancelled and \<open>n2\<close> registered.
\<close>

theorem snoozeDuration_update_does_not_reschedule:
  "upd_snoozeDuration (noUpdates\<lparr>upd_snoozeDuration := Some 5\<rparr>)
     \<noteq> Some (snoozeDuration armedAlarm) \<and>
   fst (updateAlarm ''alarm-1'' (noUpdates\<lparr>upd_snoozeDuration := Some 5\<rparr>) now0
          (sampleWorld [Some ''n2''])) = Inr () \<and>
   notifier (snd (updateAlarm ''alarm-1'' (noUpdates\<lparr>upd_snoozeDuration := Some 5\<rparr>) now0
          (sampleWorld [Some ''n2''])))
     = notifier (sampleWorld [Some ''n2'']) \<and>
   soundUri armedAlarm = ''chimes'' \<and>
   map identifier' (scheduled (notifier (sampleWorld [Some ''n2'']))) = [''n1''] \<and>
   map identifier' (scheduled (notifier (snd (updateAlarm ''alarm-1''
      (noUpdates\<lparr>upd_soundUri := Some ''chimes''\<rparr>) now0 (sampleWorld [Some ''n2''])))))
     = [''n2'']"
  by code_simp

lemma list_all_map_replace:
  assumes "list_all P xs" "P a"
  shows "list_all P (map (\<lambda>x. if Q x then a else x) xs)"
  using assms by (induction xs) auto

lemma find_in_set: "find P xs = Some x \<Longrightarrow> x \<in> set xs \<and> P x"
  by (induction xs) (auto split: if_splits)

lemma updateAlarm_invariant:
  assumes "invariant (ctx w)"
    and "needsReschedule u \<or>
         (case upd_notificationId u of
            None \<Rightarrow> True
          | Some v \<Rightarrow>
              (case getAlarmById w i of None \<Rightarrow> True | Some a \<Rightarrow> (v \<noteq> None) = isEnabled a))"
  shows "invariant (ctx (snd (updateAlarm i u now w)))"
proof (cases "updateAlarm i u now w")
  case (Pair r w')
  show ?thesis
  proof (cases r)
    case (Inl e)
    with Pair assms(1) updateAlarm_fails[of i u now w e w'] show ?thesis
      by (simp add: invariant_def)
  next
    case (Inr x)
    with Pair have ok: "updateAlarm i u now w = (Inr (), w')" by simp
    from updateAlarm_ok[OF ok] obtain existing a where
      e: "getAlarmById w i = Some existing"
      and m: "alarms (ctx w') = map (\<lambda>x. if id' x = i then a else x) (alarms (ctx w))"
      and c: "if needsReschedule u
              then rescheduleBlock existing (mergeUpdates existing u i now) now (notifier w)
                     = (Inr a, notifier w')
              else a = mergeUpdates existing u i now \<and> notifier w' = notifier w"
      by blast
    have ex: "armedIffEnabled existing"
      using e assms(1) find_in_set[of "\<lambda>a. id' a = i" "alarms (ctx w)" existing]
      by (auto simp: getAlarmById_def invariant_def list_all_iff)
    have "armedIffEnabled a"
    proof (cases "needsReschedule u")
      case True
      with c show ?thesis using rescheduleBlock_armed(1) by auto
    next
      case False
      with c have a: "a = mergeUpdates existing u i now" by simp
      from False have "upd_isEnabled u = None" by (simp add: needsReschedule_def)
      with a assms(2) False e ex show ?thesis
        by (auto simp: armedIffEnabled_def split: option.splits)
    qed
    with m assms(1) Pair show ?thesis
      by (simp add: invariant_def list_all_map_replace)
  qed
qed

lemma addAlarm_invariant:
  assumes "invariant (ctx w)"
  shows "invariant (ctx (snd (addAlarm alarmInput i now w)))"
  using assms
  by (auto simp: addAlarm_def Let_def setError_def setAlarms_def invariant_def newAlarmOf_def
      armedIffEnabled_def split: prod.splits sum.splits if_splits)

lemma toggleAlarm_alarms:
  "alarms (ctx (snd (toggleAlarm i now w))) =
     (case getAlarmById w i of
        None \<Rightarrow> alarms (ctx w)
      | Some alarm \<Rightarrow>
          alarms (ctx (snd (updateAlarm i (noUpdates\<lparr>upd_isEnabled := Some (\<not> isEnabled alarm)\<rparr>)
                              now (setError None w)))))"
proof (cases "getAlarmById w i")
  case None
  then have "getAlarmById (setError None w) i = None" by simp
  then show ?thesis
    unfolding toggleAlarm_def Let_def using None by (simp add: setError_def)
next
  case (Some alarm)
  then have g: "getAlarmById (setError None w) i = Some alarm" by simp
  show ?thesis
    unfolding toggleAlarm_def Let_def g using Some
    by (auto simp: setError_def split: prod.splits sum.splits)
qed

lemma toggleAlarm_invariant:
  assumes "invariant (ctx w)"
  shows "invariant (ctx (snd (toggleAlarm i now w)))"
proof -
  have s: "invariant (ctx (setError None w))"
    using assms by (simp add: invariant_def setError_def)
  have n: "needsReschedule (noUpdates\<lparr>upd_isEnabled := Some b\<rparr>)" for b
    by (simp add: needsReschedule_def)
  have "invariant (ctx (snd (updateAlarm i (noUpdates\<lparr>upd_isEnabled := Some b\<rparr>) now
      (setError None w))))" for b
    by (rule updateAlarm_invariant[OF s]) (simp add: n)
  then show ?thesis
    using assms toggleAlarm_alarms[of i now w]
    by (auto simp: invariant_def split: option.splits)
qed

lemma onDismiss_invariant:
  assumes "invariant (ctx w)"
  shows "invariant (ctx (onDismiss i now w))"
proof (cases "getAlarmById w i")
  case None
  with assms show ?thesis by (simp add: onDismiss_def)
next
  case (Some alarm)
  have inv: "invariant (ctx (w\<lparr>notifier := n\<rparr>))" for n using assms by simp
  have one: "invariant (ctx (snd (updateAlarm i
      (noUpdates\<lparr>upd_isEnabled := Some False, upd_notificationId := Some None\<rparr>) now
      (w\<lparr>notifier := n\<rparr>))))" for n
    by (rule updateAlarm_invariant[OF inv]) (simp add: needsReschedule_def)
  have rep: "invariant (ctx (snd (updateAlarm i
      (noUpdates\<lparr>upd_notificationId := Some (Some t)\<rparr>) now (w\<lparr>notifier := n\<rparr>))))"
    if "isEnabled alarm" for n t
    by (rule updateAlarm_invariant[OF inv]) (simp add: Some that noUpdates_def)
  show ?thesis
    using Some assms one rep
    by (auto simp: onDismiss_def rescheduleRepeatingAlarm_def truthy_def
        split: prod.splits sum.splits option.splits if_splits)
qed

lemma onSnooze_invariant:
  assumes "invariant (ctx w)"
    and "case getAlarmById w i of None \<Rightarrow> True | Some a \<Rightarrow> isEnabled a"
  shows "invariant (ctx (onSnooze i now w))"
proof (cases "getAlarmById w i")
  case None
  with assms show ?thesis by (simp add: onSnooze_def)
next
  case (Some alarm)
  have inv: "invariant (ctx (w\<lparr>notifier := n\<rparr>))" for n using assms by simp
  have en: "isEnabled alarm" using assms(2) Some by simp
  have rep: "invariant (ctx (snd (updateAlarm i
      (noUpdates\<lparr>upd_notificationId := Some (Some t)\<rparr>) now (w\<lparr>notifier := n\<rparr>))))" for n t
    by (rule updateAlarm_invariant[OF inv]) (simp add: Some en noUpdates_def)
  show ?thesis
    using Some assms(1) rep
    by (auto simp: onSnooze_def split: prod.splits sum.splits option.splits if_splits)
qed

text \<open>
  C3, as the code has it. If every alarm of the context has a \<^verbatim>\<open>notificationId\<close>
  exactly when it is enabled, then so has every alarm of the context after
  \<open>addAlarm\<close>; after \<open>updateAlarm\<close> with an update that sets any of \<^verbatim>\<open>time\<close>,
  \<^verbatim>\<open>repeats\<close>, \<^verbatim>\<open>isEnabled\<close>, \<^verbatim>\<open>soundUri\<close>, or that does not set
  \<^verbatim>\<open>notificationId\<close>; after \<open>toggleAlarm\<close>; after the dismiss handler; and after the
  snooze handler for an alarm that is enabled or not in the context. This holds whether
  the operation resolves or rejects.
\<close>

theorem operations_keep_armed_iff_enabled:
  assumes "invariant (ctx w)"
  shows "invariant (ctx (snd (addAlarm alarmInput i now w))) \<and>
     (needsReschedule updates \<or> upd_notificationId updates = None \<longrightarrow>
        invariant (ctx (snd (updateAlarm i updates now w)))) \<and>
     invariant (ctx (snd (toggleAlarm i now w))) \<and>
     invariant (ctx (onDismiss i now w)) \<and>
     ((case getAlarmById w i of None \<Rightarrow> True | Some a \<Rightarrow> isEnabled a) \<longrightarrow>
        invariant (ctx (onSnooze i now w)))"
proof -
  have u: "needsReschedule updates \<or> upd_notificationId updates = None \<longrightarrow>
        invariant (ctx (snd (updateAlarm i updates now w)))"
    using updateAlarm_invariant[OF assms, of updates i now] by (auto split: option.splits)
  show ?thesis
    using addAlarm_invariant[OF assms] u toggleAlarm_invariant[OF assms]
      onDismiss_invariant[OF assms] onSnooze_invariant[OF assms] by blast
qed

theorem operations_keep_armed_iff_enabled_witness:
  "invariant (ctx (snd (addAlarm sampleInput ''alarm-2'' now0 (sampleWorld [Some ''n2''])))) \<and>
   invariant (ctx (snd (updateAlarm ''alarm-1'' (noUpdates\<lparr>upd_isEnabled := Some False\<rparr>) now0
      (sampleWorld [Some ''n2''])))) \<and>
   invariant (ctx (snd (toggleAlarm ''alarm-1'' now0 (sampleWorld [Some ''n2''])))) \<and>
   invariant (ctx (onDismiss ''alarm-1'' now0 (sampleWorld [Some ''n2'']))) \<and>
   invariant (ctx (onSnooze ''alarm-1'' now0 (sampleWorld [Some ''n2''])))"
proof -
  have a: "invariant (ctx (sampleWorld [Some ''n2'']))" by code_simp
  have b: "needsReschedule (noUpdates\<lparr>upd_isEnabled := Some False\<rparr>)" by code_simp
  have c: "case getAlarmById (sampleWorld [Some ''n2'']) ''alarm-1'' of
             None \<Rightarrow> True | Some a \<Rightarrow> isEnabled a"
    by code_simp
  show ?thesis
    using operations_keep_armed_iff_enabled[OF a, of sampleInput "''alarm-2''" now0
        "noUpdates\<lparr>upd_isEnabled := Some False\<rparr>"]
      operations_keep_armed_iff_enabled[OF a, of sampleInput "''alarm-1''" now0
        "noUpdates\<lparr>upd_isEnabled := Some False\<rparr>"]
      b c by simp
qed

text \<open>
  C3 as stated fails: \<open>updateAlarm\<close> with an update that sets only \<^verbatim>\<open>notificationId\<close>
  succeeds on a disabled alarm that has none, and leaves it disabled with one.
\<close>

theorem update_can_arm_disabled_alarm:
  "invariant (ctx disabledWorld) \<and>
   fst (updateAlarm ''alarm-1'' (noUpdates\<lparr>upd_notificationId := Some (Some ''n9'')\<rparr>) now0
          disabledWorld) = Inr () \<and>
   \<not> invariant (ctx (snd (updateAlarm ''alarm-1''
        (noUpdates\<lparr>upd_notificationId := Some (Some ''n9'')\<rparr>) now0 disabledWorld)))"
  by code_simp

text \<open>
  The snooze handler makes that call without looking at \<^verbatim>\<open>isEnabled\<close>: snoozing a
  disabled alarm whose snooze is enabled schedules the snooze and stores its id.
\<close>

lemma snooze_arms_disabled_alarm:
  "\<not> invariant (ctx (onSnooze ''alarm-1'' now0 disabledWorld))"
  by code_simp

section \<open>One registration per alarm across edits\<close>

lemma find_map_replace:
  assumes "P a" "\<And>x. Q x = P x"
  shows "find P (map (\<lambda>x. if Q x then a else x) xs)
     = (case find P xs of None \<Rightarrow> None | Some y \<Rightarrow> Some a)"
  using assms by (induction xs) auto

text \<open>Cancelling the one identifier the alarm's requests carry leaves none of them.\<close>

lemma live_after_cancel:
  assumes "map identifier' (filter P rs) = (case x of None \<Rightarrow> [] | Some t \<Rightarrow> [t])"
    and "x \<noteq> Some []"
  shows "filter P (withoutToken x rs) = []"
proof (cases x)
  case None
  with assms show ?thesis by (simp add: withoutToken_def)
next
  case (Some t)
  with assms have t: "t \<noteq> []" by simp
  from assms(1) Some have "set (map identifier' (filter P rs)) = {t}" by simp
  then have "\<forall>r\<in>set (filter P rs). identifier' r = t" by auto
  then have "filter (\<lambda>r. identifier' r \<noteq> t) (filter P rs) = []"
    by (simp add: filter_empty_conv)
  then have "filter P (filter (\<lambda>r. identifier' r \<noteq> t) rs) = []"
    by (simp add: conj_commute)
  with Some t show ?thesis by (simp add: withoutToken_def removeRequest_def)
qed

lemma withoutToken_ids:
  assumes "x = Some t" "t \<noteq> []"
  shows "t \<notin> identifier' ` set (withoutToken x rs)"
  using assms by (auto simp: withoutToken_def removeRequest_def)

text \<open>
  One successful edit through the function object of the latest render that
  reschedules, or that does not touch \<^verbatim>\<open>notificationId\<close>, keeps the alarm at rest; after a rescheduling edit the alarm has a
  \<^verbatim>\<open>notificationId\<close> exactly when it is enabled, and the identifier it had before is
  no longer scheduled (unless the platform has issued it again).
\<close>

lemma edit_keeps_one_registration:
  assumes r: "atRest w i" and ok: "updateAlarm i u now w = (Inr (), w')"
    and u: "needsReschedule u \<or> upd_notificationId u = None"
    and s: "Some [] \<notin> set (scheduleOutcomes (notifier w))"
  shows "atRest w' i \<and> Some [] \<notin> set (scheduleOutcomes (notifier w')) \<and>
     (needsReschedule u \<longrightarrow>
        (tokenOf w' i \<noteq> None) = (\<exists>a. getAlarmById w' i = Some a \<and> isEnabled a)) \<and>
     (\<forall>t. tokenOf w i = Some t \<and> tokenOf w' i \<noteq> Some t \<longrightarrow>
          t \<notin> identifier' ` set (scheduled (notifier w')))"
proof -
  from updateAlarm_ok[OF ok] obtain existing a where
    e: "getAlarmById w i = Some existing"
    and m: "alarms (ctx w') = map (\<lambda>x. if id' x = i then a else x) (alarms (ctx w))"
    and c: "if needsReschedule u
            then rescheduleBlock existing (mergeUpdates existing u i now) now (notifier w)
                   = (Inr a, notifier w')
            else a = mergeUpdates existing u i now \<and> notifier w' = notifier w"
    by blast
  have ida: "id' a = i"
    using c rescheduleBlock_armed(2) by (cases "needsReschedule u") auto
  have g': "getAlarmById w' i = Some a"
    using e m ida find_map_replace[of "\<lambda>x. id' x = i" a "\<lambda>x. id' x = i" "alarms (ctx w)"]
    by (simp add: getAlarmById_def)
  have tok: "tokenOf w i = notificationId existing" "tokenOf w' i = notificationId a"
    using e g' by (simp_all add: tokenOf_def)
  from r tok have live:
    "map identifier'
       (filter (\<lambda>r. alarmId (content_data (content r)) = i) (scheduled (notifier w)))
      = (case notificationId existing of None \<Rightarrow> [] | Some t \<Rightarrow> [t])"
    and ne: "notificationId existing \<noteq> Some []"
    by (simp_all add: atRest_def liveFor_def)
  show ?thesis
  proof (cases "needsReschedule u")
    case False
    with c u have "a = mergeUpdates existing u i now" "notifier w' = notifier w"
      "upd_notificationId u = None" by auto
    then have "tokenOf w' i = tokenOf w i" using tok by simp
    with r s \<open>notifier w' = notifier w\<close> False show ?thesis
      by (simp add: atRest_def liveFor_def)
  next
    case True
    let ?upd = "mergeUpdates existing u i now"
    from True c have rb: "rescheduleBlock existing ?upd now (notifier w) = (Inr a, notifier w')"
      by simp
    note k = rescheduleBlock_ok[OF rb]
    have gone: "filter (\<lambda>r. alarmId (content_data (content r)) = i)
        (withoutToken (notificationId existing) (scheduled (notifier w))) = []"
      by (rule live_after_cancel[OF live ne])
    show ?thesis
    proof (cases "isEnabled ?upd")
      case False
      with k have a: "a = ?upd\<lparr>notificationId := None\<rparr>"
        "scheduled (notifier w')
           = withoutToken (notificationId existing) (scheduled (notifier w))"
        "scheduleOutcomes (notifier w') = scheduleOutcomes (notifier w)" by auto
      have en: "\<not> isEnabled a" using a(1) False by simp
      have t: "\<forall>t. notificationId existing = Some t
          \<longrightarrow> t \<notin> identifier' ` set (scheduled (notifier w'))"
        using withoutToken_ids ne a(2) by metis
      show ?thesis
        using a gone s tok g' en t True by (simp add: atRest_def liveFor_def)
    next
      case en: True
      with k obtain nid d where a: "a = ?upd\<lparr>notificationId := Some nid\<rparr>"
        "scheduled (notifier w')
           = withoutToken (notificationId existing) (scheduled (notifier w))
             @ [requestFor ?upd nid d]"
        "scheduleOutcomes (notifier w) = Some nid # scheduleOutcomes (notifier w')" by auto
      have nid: "nid \<noteq> []" using s a(3) by auto
      have s': "Some [] \<notin> set (scheduleOutcomes (notifier w'))" using s a(3) by auto
      have ena: "isEnabled a" using a(1) en by simp
      have rq: "alarmId (content_data (content (requestFor ?upd nid d))) = i"
        "identifier' (requestFor ?upd nid d) = nid"
        by (simp_all add: requestFor_def)
      have t: "\<forall>t. notificationId existing = Some t \<and> Some nid \<noteq> Some t
          \<longrightarrow> t \<notin> identifier' ` set (scheduled (notifier w'))"
        using withoutToken_ids[of "notificationId existing" _ "scheduled (notifier w)"]
          ne a(2) rq(2)
        by auto
      show ?thesis
        using a(1) a(2) gone s' tok g' ena t nid rq True by (simp add: atRest_def liveFor_def)
    qed
  qed
qed

text \<open>
  Two edits with a render in between. Take an alarm at rest and a platform that never
  issues the empty identifier, and let each of two successful rescheduling edits go
  through the function object of a render that has the state the operation before it
  left. Then the live registrations of the alarm are again exactly its
  \<^verbatim>\<open>notificationId\<close>, exactly one when the alarm is enabled, and the identifier the
  first edit produced is no longer scheduled after the second (unless the platform
  issued it again).
\<close>

lemma edits_across_renders_leave_one_registration:
  assumes "atRest w0 i" and "Some [] \<notin> set (scheduleOutcomes (notifier w0))"
    and "needsReschedule u1" and "updateAlarm i u1 now1 w0 = (Inr (), w1)"
    and "needsReschedule u2" and "updateAlarm i u2 now2 w1 = (Inr (), w2)"
  shows "map identifier' (liveFor (notifier w2) i)
       = (case tokenOf w2 i of None \<Rightarrow> [] | Some t \<Rightarrow> [t]) \<and>
     (\<forall>a. getAlarmById w2 i = Some a \<and> isEnabled a
        \<longrightarrow> length (liveFor (notifier w2) i) = 1) \<and>
     (\<forall>t1. tokenOf w1 i = Some t1 \<and> tokenOf w2 i \<noteq> Some t1 \<longrightarrow>
          t1 \<notin> identifier' ` set (scheduled (notifier w2)))"
proof -
  note one = edit_keeps_one_registration[OF assms(1) assms(4) _ assms(2)]
  from one assms(3) have r1: "atRest w1 i" "Some [] \<notin> set (scheduleOutcomes (notifier w1))"
    by auto
  note two = edit_keeps_one_registration[OF r1(1) assms(6) _ r1(2)]
  from two assms(5) have r2: "atRest w2 i"
    "(tokenOf w2 i \<noteq> None) = (\<exists>a. getAlarmById w2 i = Some a \<and> isEnabled a)"
    "\<forall>t. tokenOf w1 i = Some t \<and> tokenOf w2 i \<noteq> Some t \<longrightarrow>
          t \<notin> identifier' ` set (scheduled (notifier w2))" by auto
  have l: "map identifier' (liveFor (notifier w2) i)
      = (case tokenOf w2 i of None \<Rightarrow> [] | Some t \<Rightarrow> [t])"
    using r2(1) by (simp add: atRest_def)
  have "\<forall>a. getAlarmById w2 i = Some a \<and> isEnabled a
      \<longrightarrow> length (liveFor (notifier w2) i) = 1"
  proof (intro allI impI)
    fix a assume "getAlarmById w2 i = Some a \<and> isEnabled a"
    with r2(2) obtain t where "tokenOf w2 i = Some t" by auto
    with l have "map identifier' (liveFor (notifier w2) i) = [t]" by simp
    then have "length (map identifier' (liveFor (notifier w2) i)) = 1" by simp
    then show "length (liveFor (notifier w2) i) = 1" by simp
  qed
  with l r2(3) show ?thesis by blast
qed

text \<open>
  The alarm scheduled under \<open>n1\<close> is edited twice with a render in between, its time and
  then its repeat days; the platform answers \<open>n2\<close> and \<open>n3\<close>. Afterwards its one live
  registration is \<open>n3\<close>, and \<open>n2\<close> is scheduled no more.
\<close>

lemma edits_across_renders_example:
  "map identifier' (liveFor (notifier (snd (updateAlarm ''alarm-1''
      (noUpdates\<lparr>upd_repeats := Some [Mon]\<rparr>) now0
      (snd (updateAlarm ''alarm-1'' (noUpdates\<lparr>upd_time := Some ''08:15''\<rparr>) now0
         (sampleWorld [Some ''n2'', Some ''n3'']))))))
      ''alarm-1'') = [''n3''] \<and>
   ''n2'' \<notin> identifier' ` set (scheduled (notifier (snd (updateAlarm ''alarm-1''
      (noUpdates\<lparr>upd_repeats := Some [Mon]\<rparr>) now0
      (snd (updateAlarm ''alarm-1'' (noUpdates\<lparr>upd_time := Some ''08:15''\<rparr>) now0
         (sampleWorld [Some ''n2'', Some ''n3''])))))))"
proof -
  let ?w0 = "sampleWorld [Some ''n2'', Some ''n3'']"
  let ?u1 = "noUpdates\<lparr>upd_time := Some ''08:15''\<rparr>"
  let ?u2 = "noUpdates\<lparr>upd_repeats := Some [Mon]\<rparr>"
  let ?w1 = "snd (updateAlarm ''alarm-1'' ?u1 now0 ?w0)"
  let ?w2 = "snd (updateAlarm ''alarm-1'' ?u2 now0 ?w1)"
  have r: "atRest ?w0 ''alarm-1''" by code_simp
  have s: "Some [] \<notin> set (scheduleOutcomes (notifier ?w0))" by code_simp
  have n1: "needsReschedule ?u1" by code_simp
  have n2: "needsReschedule ?u2" by code_simp
  have f1: "fst (updateAlarm ''alarm-1'' ?u1 now0 ?w0) = Inr ()" by code_simp
  have f2: "fst (updateAlarm ''alarm-1'' ?u2 now0 ?w1) = Inr ()" by code_simp
  have e1: "updateAlarm ''alarm-1'' ?u1 now0 ?w0 = (Inr (), ?w1)"
    using f1 by (simp add: prod_eq_iff)
  have e2: "updateAlarm ''alarm-1'' ?u2 now0 ?w1 = (Inr (), ?w2)"
    using f2 by (simp add: prod_eq_iff)
  have t1: "tokenOf ?w1 ''alarm-1'' = Some ''n2''" by code_simp
  have t2: "tokenOf ?w2 ''alarm-1'' = Some ''n3''" by code_simp
  show ?thesis
    using edits_across_renders_leave_one_registration[OF r s n1 e1 n2 e2] t1 t2 by auto
qed

text \<open>
  C4 fails on the code when the two edits are two calls in a row of one function
  object, as in \<^verbatim>\<open>await updateAlarm(id, a); await updateAlarm(id, b)\<close>. The alarm is
  at rest under \<open>n1\<close>. The first call cancels \<open>n1\<close> and registers \<open>n2\<close>. The second call
  reads \<^verbatim>\<open>existingAlarm\<close> from the array its render captured, where the alarm still
  has \<open>n1\<close> and the old time: it cancels \<open>n1\<close> once more, registers \<open>n3\<close>, and stores the
  old time with \<open>n3\<close>. Two registrations of the alarm are live, \<open>n2\<close> and \<open>n3\<close>; the
  token of the first edit was not cancelled.
\<close>

theorem edits_in_a_row_leave_two_registrations:
  "atRest twoAnswers ''alarm-1'' \<and>
   fst (updateAlarmOf (alarms (ctx twoAnswers)) ''alarm-1''
          (noUpdates\<lparr>upd_time := Some ''08:15''\<rparr>) now0 twoAnswers) = Inr () \<and>
   map identifier' (liveFor (notifier afterFirstEdit) ''alarm-1'') = [''n2''] \<and>
   fst (updateAlarmOf (alarms (ctx twoAnswers)) ''alarm-1''
          (noUpdates\<lparr>upd_repeats := Some [Mon]\<rparr>) now0 afterFirstEdit) = Inr () \<and>
   map identifier' (liveFor (notifier afterSecondEdit) ''alarm-1'') = [''n2'', ''n3''] \<and>
   map (\<lambda>a. (time a, notificationId a)) (alarms (ctx afterSecondEdit))
     = [(''07:30'', Some ''n3'')]"
  by code_simp

end
